theory Spec2Isabelle
  imports Main
begin

section \<open>The editor module of the Houdini Engine plugin\<close>

text \<open>
  The module is glue between the host editor and the Houdini engine. Host objects are
  referred to by pointers; a pointer that may be null is an \<open>option\<close>. Calls into
  the host that the source file does not define are parameters of the model.
\<close>

subsection \<open>Objects of the host\<close>

record uobject =
  object_name :: string
  class_name :: "string option"
  is_actor :: bool
  is_houdini_asset_actor :: bool

text \<open>\<open>Cast< AActor >( p )\<close>: null for a null pointer or an object that is no actor.\<close>

definition Cast_AActor :: "uobject option \<Rightarrow> uobject option" where
  "Cast_AActor p = (case p of None \<Rightarrow> None | Some ob \<Rightarrow> if is_actor ob then Some ob else None)"

definition Cast_AHoudiniAssetActor :: "uobject option \<Rightarrow> uobject option" where
  "Cast_AHoudiniAssetActor p =
     (case p of None \<Rightarrow> None | Some ob \<Rightarrow> if is_houdini_asset_actor ob then Some ob else None)"

subsection \<open>GetWorldSelection\<close>

text \<open>\<open>TArray::RemoveAt( Idx )\<close> for an index in range.\<close>

definition RemoveAt :: "nat \<Rightarrow> 'a list \<Rightarrow> 'a list" where
  "RemoveAt idx xs = take idx xs @ drop (Suc idx) xs"

text \<open>
  The loop over the selection iterator: objects that are no actors and actors whose class
  is named \<open>BP_Sky_Sphere_C\<close> are skipped, the others are appended.
\<close>

fun add_selected_actors :: "uobject option list \<Rightarrow> uobject list \<Rightarrow> uobject list" where
  "add_selected_actors [] ws = ws"
| "add_selected_actors (it # its) ws =
     (case Cast_AActor it of
        None \<Rightarrow> add_selected_actors its ws
      | Some actor \<Rightarrow>
          (let ClassName = (case class_name actor of Some n \<Rightarrow> n | None \<Rightarrow> [])
           in if ClassName = ''BP_Sky_Sphere_C'' then add_selected_actors its ws
              else add_selected_actors its (ws @ [actor])))"

text \<open>
  The loop \<open>for ( Idx = Num() - 1; Idx >= 0; Idx-- )\<close>; the first argument is
  \<open>Idx + 1\<close>.
\<close>

fun remove_non_houdini :: "nat \<Rightarrow> uobject list \<Rightarrow> uobject list" where
  "remove_non_houdini 0 ws = ws"
| "remove_non_houdini (Suc idx) ws =
     (case Cast_AHoudiniAssetActor (Some (ws ! idx)) of
        None \<Rightarrow> remove_non_houdini idx (RemoveAt idx ws)
      | Some a \<Rightarrow> remove_non_houdini idx ws)"

text \<open>
  \<open>GEditor\<close> is \<open>None\<close> when the pointer is null, and otherwise holds what the
  iterator over the selected actors yields. The array is passed by reference: the model
  takes its old contents and returns the count with the new contents.
\<close>

definition GetWorldSelection ::
  "uobject list \<Rightarrow> uobject option list option \<Rightarrow> bool \<Rightarrow> int \<times> uobject list" where
  "GetWorldSelection WorldSelection GEditor bHoudiniAssetActorsOnly =
     (let ws0 = [] :: uobject list;
          ws1 = (case GEditor of None \<Rightarrow> ws0 | Some sel \<Rightarrow> add_selected_actors sel ws0);
          ws2 = (if bHoudiniAssetActorsOnly then remove_non_houdini (length ws1) ws1 else ws1)
      in (int (length ws2), ws2))"

subsection \<open>The global cooking switch\<close>

text \<open>
  Modelled from the spec: \<open>FHoudiniEngine::GetEnableCookingGlobal\<close> and
  \<open>SetEnableCookingGlobal\<close> are defined in the runtime module; they read and write one
  boolean of the engine singleton.
\<close>

record houdini_engine =
  bEnableCookingGlobal :: bool

definition GetEnableCookingGlobal :: "houdini_engine \<Rightarrow> bool" where
  "GetEnableCookingGlobal e = bEnableCookingGlobal e"

definition SetEnableCookingGlobal :: "houdini_engine \<Rightarrow> bool \<Rightarrow> houdini_engine" where
  "SetEnableCookingGlobal e b = e\<lparr>bEnableCookingGlobal := b\<rparr>"

subsection \<open>Notifications, log lines and calls out of the editor\<close>

text \<open>
  A message is a sequence of fragments; \<open>Num n\<close> stands for \<open>FString::FromInt( n )\<close>
  and for a \<open>%d\<close> argument of a log line.
\<close>

datatype fragment = Txt string | Num int

datatype event =
    SlateNotification "fragment list"
  | LogMessage "fragment list"
  | LogError "fragment list"
  | SaveFileDialog "string option"
  | HapiSaveHIPFile string
  | CreateProc string string string
  | LaunchURL string

subsection \<open>Houdini asset components\<close>

text \<open>
  A component is referred to by its pointer. What a component answers depends on the
  state \<open>'w\<close> of the world, which the calls that cook, tick and bake change. The
  members of \<open>UHoudiniAssetComponent\<close>, \<open>AHoudiniAssetActor\<close> and
  \<open>FHoudiniEngineBakeUtils\<close> are defined in other modules and are parameters here.
  \<open>AssetName\<close> is the name of the outer object when there is one, and of the
  component otherwise. An object iterator is the sequence of the pointers it yields
  during a loop.
\<close>

type_synonym comp = nat

record 'w component_api =
  IsComponentValid :: "'w \<Rightarrow> comp \<Rightarrow> bool"
  IsInstantiatingOrCooking :: "'w \<Rightarrow> comp \<Rightarrow> bool"
  IsValidLowLevel :: "'w \<Rightarrow> comp \<Rightarrow> bool"
  AssetName :: "'w \<Rightarrow> comp \<Rightarrow> string"
  GetHoudiniAssetComponent :: "'w \<Rightarrow> uobject \<Rightarrow> comp option"
  ReplaceHoudiniActorWithBlueprint :: "'w \<Rightarrow> comp \<Rightarrow> bool \<times> 'w"
  StartHoudiniTicking :: "'w \<Rightarrow> comp \<Rightarrow> 'w"

subsection \<open>PauseAssetCooking and IsAssetCookingPaused\<close>

text \<open>The loop over \<open>TObjectIterator< UHoudiniAssetComponent >\<close> that restarts ticking.\<close>

fun tick_components ::
  "'w component_api \<Rightarrow> comp option list \<Rightarrow> 'w \<Rightarrow> event list \<Rightarrow> 'w \<times> event list" where
  "tick_components api [] w evs = (w, evs)"
| "tick_components api (p # Itr) w evs =
     (case p of
        None \<Rightarrow>
          tick_components api Itr w
            (evs @ [LogError [Txt ''Failed to cook a Houdini Asset in the scene!'']])
      | Some c \<Rightarrow>
          if \<not> IsValidLowLevel api w c
          then tick_components api Itr w
                 (evs @ [LogError [Txt ''Failed to cook a Houdini Asset in the scene!'']])
          else tick_components api Itr (StartHoudiniTicking api w c) evs)"

definition PauseAssetCooking ::
  "'w component_api \<Rightarrow> comp option list \<Rightarrow> houdini_engine \<times> 'w
     \<Rightarrow> (houdini_engine \<times> 'w) \<times> event list" where
  "PauseAssetCooking api Itr s =
     (let engine = fst s; w = snd s;
          CurrentEnableCookingGlobal = (\<not> GetEnableCookingGlobal engine);
          engine' = SetEnableCookingGlobal engine CurrentEnableCookingGlobal;
          Notification = (if CurrentEnableCookingGlobal then ''Houdini Engine cooking resumed''
                          else ''Houdini Engine cooking paused'');
          evs = [SlateNotification [Txt Notification],
                 (if CurrentEnableCookingGlobal
                  then LogMessage [Txt ''Houdini Engine cooking resumed.'']
                  else LogMessage [Txt ''Houdini Engine cooking paused.''])]
      in if \<not> CurrentEnableCookingGlobal then ((engine', w), evs)
         else (let r = tick_components api Itr w evs in ((engine', fst r), snd r)))"

definition IsAssetCookingPaused :: "houdini_engine \<Rightarrow> bool" where
  "IsAssetCookingPaused engine = (\<not> GetEnableCookingGlobal engine)"

subsection \<open>BakeAllAssets and BakeSelection\<close>

text \<open>
  The state of a bake loop: the world, the counter, the log, and the calls made to
  \<open>ReplaceHoudiniActorWithBlueprint\<close>, each with the world it was made in and what it
  returned. The counter is an \<open>int32\<close> that counts elements of a sequence whose
  length is an \<open>int32\<close>, so it does not wrap; it is an \<open>int\<close> here.
\<close>

record 'w bake_state =
  bake_world :: 'w
  BakedCount :: int
  bake_log :: "event list"
  replace_calls :: "(comp \<times> 'w \<times> bool) list"

text \<open>The part both loops share: a valid component is baked unless it is busy.\<close>

definition bake_if_idle :: "'w component_api \<Rightarrow> comp \<Rightarrow> 'w bake_state \<Rightarrow> 'w bake_state" where
  "bake_if_idle api c s =
     (if \<not> IsInstantiatingOrCooking api (bake_world s) c
      then (let r = ReplaceHoudiniActorWithBlueprint api (bake_world s) c
            in s\<lparr>bake_world := snd r,
                 BakedCount := (if fst r then BakedCount s + 1 else BakedCount s),
                 replace_calls := replace_calls s @ [(c, bake_world s, fst r)]\<rparr>)
      else s)"

definition bake_all_body :: "'w component_api \<Rightarrow> 'w bake_state \<Rightarrow> comp option \<Rightarrow> 'w bake_state" where
  "bake_all_body api s p =
     (case p of
        None \<Rightarrow>
          s\<lparr>bake_log := bake_log s @
               [LogError [Txt ''Failed to export a Houdini Asset in the scene!'']]\<rparr>
      | Some c \<Rightarrow>
          if \<not> IsComponentValid api (bake_world s) c
          then (if AssetName api (bake_world s) c \<noteq> ''Default__HoudiniAssetActor''
                then s\<lparr>bake_log := bake_log s @
                       [LogError [Txt ''Failed to export Houdini Asset: '',
                                  Txt (AssetName api (bake_world s) c),
                                  Txt '' in the scene!'']]\<rparr>
                else s)
          else bake_if_idle api c s)"

definition bake_report :: "'w bake_state \<Rightarrow> event list" where
  "bake_report s =
     [SlateNotification [Txt ''Baked '', Num (BakedCount s), Txt '' Houdini assets.''],
      LogMessage [Txt ''Baked all '', Num (BakedCount s),
                  Txt '' Houdini assets in the current level.'']]"

definition BakeAllAssets ::
  "'w component_api \<Rightarrow> comp option list \<Rightarrow> 'w \<Rightarrow> 'w bake_state" where
  "BakeAllAssets api Itr w =
     (let s0 = \<lparr>bake_world = w, BakedCount = 0,
                bake_log = [SlateNotification [Txt ''Baking all assets in the current level...'']],
                replace_calls = []\<rparr>;
          s1 = foldl (bake_all_body api) s0 Itr
      in s1\<lparr>bake_log := bake_log s1 @ bake_report s1\<rparr>)"

definition bake_selection_body ::
  "'w component_api \<Rightarrow> uobject list \<Rightarrow> 'w bake_state \<Rightarrow> nat \<Rightarrow> 'w bake_state" where
  "bake_selection_body api WorldSelection s Idx =
     (case Cast_AHoudiniAssetActor (Some (WorldSelection ! Idx)) of
        None \<Rightarrow> s
      | Some HoudiniAssetActor \<Rightarrow>
          (case GetHoudiniAssetComponent api (bake_world s) HoudiniAssetActor of
             None \<Rightarrow>
               s\<lparr>bake_log := bake_log s @
                    [LogError [Txt ''Failed to export a Houdini Asset in the scene!'']]\<rparr>
           | Some c \<Rightarrow>
               if \<not> IsComponentValid api (bake_world s) c
               then s\<lparr>bake_log := bake_log s @
                       [LogError [Txt ''Failed to export Houdini Asset: '',
                                  Txt (AssetName api (bake_world s) c),
                                  Txt '' in the scene!'']]\<rparr>
               else bake_if_idle api c s))"

definition BakeSelection ::
  "'w component_api \<Rightarrow> uobject option list option \<Rightarrow> 'w \<Rightarrow> 'w bake_state" where
  "BakeSelection api GEditor w =
     (let sel = GetWorldSelection [] GEditor True;
          SelectedHoudiniAssets = fst sel; WorldSelection = snd sel
      in if SelectedHoudiniAssets \<le> 0
         then \<lparr>bake_world = w, BakedCount = 0,
               bake_log = [LogMessage [Txt ''No Houdini Assets selected in the world outliner'']],
               replace_calls = []\<rparr>
         else (let s0 = \<lparr>bake_world = w, BakedCount = 0,
                          bake_log = [SlateNotification
                            [Txt ''Baking selected Houdini Asset Actors in the current level...'']],
                          replace_calls = []\<rparr>;
                   s1 = foldl (bake_selection_body api WorldSelection) s0
                          [0 ..< nat SelectedHoudiniAssets]
               in s1\<lparr>bake_log := bake_log s1 @ bake_report s1\<rparr>))"

subsection \<open>SaveHIPFile, OpenInHoudini and ReportBug\<close>

text \<open>
  What \<open>SaveHIPFile\<close> consults: the desktop platform (null, or an object whose
  \<open>SaveFileDialog\<close> answers with a flag and the chosen file names, given the window
  handle), \<open>FHoudiniEngineUtils::IsInitialized\<close>, and the handle of the main
  frame's native window when both the window and its native window are valid. A path is
  handed on as the string it is; the conversions between character types are left out.
\<close>

record save_host =
  DesktopPlatform :: "(string option \<Rightarrow> bool \<times> string list) option"
  Utils_IsInitialized :: bool
  OSWindowHandle :: "string option"

definition SaveHIPFile :: "save_host \<Rightarrow> event list" where
  "SaveHIPFile h =
     (case DesktopPlatform h of
        None \<Rightarrow> []
      | Some dialog \<Rightarrow>
          if \<not> Utils_IsInitialized h then []
          else (let ParentWindowWindowHandle = OSWindowHandle h;
                    r = dialog ParentWindowWindowHandle;
                    bSaved = fst r; SaveFilenames = snd r;
                    evs = [SaveFileDialog ParentWindowWindowHandle]
                in if bSaved \<and> length SaveFilenames \<noteq> 0
                   then evs @ [SlateNotification [Txt ''Saving internal Houdini scene...''],
                               LogMessage [Txt ''Saved Houdini scene to '', Txt (SaveFilenames ! 0)],
                               HapiSaveHIPFile (SaveFilenames ! 0)]
                   else evs))"

text \<open>
  What \<open>OpenInHoudini\<close> consults. \<open>'f\<close> is the state of the disk. The engine's
  \<open>SaveHIPFile\<close> may or may not write the file it is asked for.
\<close>

record 'f open_host =
  Engine_IsInitialized :: bool
  UserTempDir :: string
  CreateTempFilename :: "'f \<Rightarrow> string \<Rightarrow> string \<Rightarrow> string \<Rightarrow> string"
  Hapi_SaveHIPFile :: "'f \<Rightarrow> string \<Rightarrow> 'f"
  FileExists :: "'f \<Rightarrow> string \<Rightarrow> bool"
  GetLibHAPILocation :: string

definition OpenInHoudini :: "'f open_host \<Rightarrow> 'f \<Rightarrow> 'f \<times> event list" where
  "OpenInHoudini h disk =
     (if \<not> Engine_IsInitialized h then (disk, [])
      else (let UserTempPath = CreateTempFilename h disk (UserTempDir h) ''HoudiniEngine'' ''.hip'';
                disk' = Hapi_SaveHIPFile h disk UserTempPath;
                evs = [HapiSaveHIPFile UserTempPath]
            in if \<not> FileExists h disk' UserTempPath then (disk', evs)
               else (disk',
                     evs @ [SlateNotification [Txt ''Opening scene in Houdini...''],
                            LogMessage [Txt ''Opened scene in Houdini.''],
                            CreateProc (GetLibHAPILocation h @ ''//houdini'') UserTempPath
                              (UserTempDir h)])))"

text \<open>The address is the macro \<open>HAPI_UNREAL_BUG_REPORT_URL\<close>, defined in a header.\<close>

definition ReportBug :: "string \<Rightarrow> event list" where
  "ReportBug HAPI_UNREAL_BUG_REPORT_URL = [LaunchURL HAPI_UNREAL_BUG_REPORT_URL]"

subsection \<open>CleanUpTempFolder\<close>

text \<open>
  Objects and packages are referred to by pointers, null being \<open>None\<close>. The asset
  registry, the object library, the reference search and the deletion tools belong to the
  host; \<open>'w\<close> is the state of its object graph. \<open>IsReferenced\<close> returns its flag and
  the referencers it lists as external references.
\<close>

type_synonym object_ptr = nat

record asset_data =
  PackageName :: string
  AssetName_of :: string

record 'w asset_host =
  GetAssetDataList :: "'w \<Rightarrow> string \<Rightarrow> asset_data list"
  GetPackage :: "'w \<Rightarrow> asset_data \<Rightarrow> object_ptr option"
  GetAsset :: "'w \<Rightarrow> asset_data \<Rightarrow> object_ptr option"
  GetFName :: "'w \<Rightarrow> object_ptr \<Rightarrow> string"
  GetAssetsByPackageName :: "'w \<Rightarrow> string \<Rightarrow> asset_data list"
  IsReferenced :: "'w \<Rightarrow> object_ptr \<Rightarrow> bool \<times> object_ptr list"
  GetOuter :: "'w \<Rightarrow> object_ptr \<Rightarrow> object_ptr option"
  DeleteAssets :: "'w \<Rightarrow> asset_data list \<Rightarrow> int \<times> 'w"
  ForceDeleteObjects :: "'w \<Rightarrow> object_ptr list \<Rightarrow> int \<times> 'w"

text \<open>
  The search of \<open>AssetDataToDelete\<close> for the outer of one referencer. The source
  compares pointers, and so does the model: two null pointers are equal.
\<close>

fun outer_found :: "'w asset_host \<Rightarrow> 'w \<Rightarrow> asset_data list \<Rightarrow> object_ptr option \<Rightarrow> bool" where
  "outer_found h w [] Outer = False"
| "outer_found h w (DataToDelete # rest) Outer =
     (if GetPackage h w DataToDelete = Outer then True
      else if GetAsset h w DataToDelete = Outer then True
      else outer_found h w rest Outer)"

text \<open>
  The loop over \<open>ExternalReferences\<close>: \<open>False\<close> when it leaves with
  \<open>bAssetDataSafeToDelete = false\<close>.
\<close>

fun references_deleted ::
  "'w asset_host \<Rightarrow> 'w \<Rightarrow> asset_data list \<Rightarrow> object_ptr list \<Rightarrow> bool" where
  "references_deleted h w AssetDataToDelete [] = True"
| "references_deleted h w AssetDataToDelete (Referencer # rest) =
     (if \<not> outer_found h w AssetDataToDelete (GetOuter h w Referencer) then False
      else references_deleted h w AssetDataToDelete rest)"

text \<open>The loop over \<open>AssetsInPackage\<close>, threading \<open>bAssetDataSafeToDelete\<close>.\<close>

fun package_safe_to_delete ::
  "'w asset_host \<Rightarrow> 'w \<Rightarrow> asset_data list \<Rightarrow> asset_data list \<Rightarrow> bool \<Rightarrow> bool" where
  "package_safe_to_delete h w AssetDataToDelete [] bAssetDataSafeToDelete =
     bAssetDataSafeToDelete"
| "package_safe_to_delete h w AssetDataToDelete (AssetInfo # rest) bAssetDataSafeToDelete =
     (case GetAsset h w AssetInfo of
        None \<Rightarrow> package_safe_to_delete h w AssetDataToDelete rest bAssetDataSafeToDelete
      | Some AssetInPackage \<Rightarrow>
          if \<not> fst (IsReferenced h w AssetInPackage)
          then package_safe_to_delete h w AssetDataToDelete rest bAssetDataSafeToDelete
          else package_safe_to_delete h w AssetDataToDelete rest
                 (if references_deleted h w AssetDataToDelete (snd (IsReferenced h w AssetInPackage))
                  then bAssetDataSafeToDelete else False))"

text \<open>The loop over \<open>AssetDataList\<close>, growing \<open>AssetDataToDelete\<close>.\<close>

fun collect_assets_to_delete ::
  "'w asset_host \<Rightarrow> 'w \<Rightarrow> asset_data list \<Rightarrow> asset_data list \<Rightarrow> asset_data list" where
  "collect_assets_to_delete h w [] AssetDataToDelete = AssetDataToDelete"
| "collect_assets_to_delete h w (Data # rest) AssetDataToDelete =
     (case GetPackage h w Data of
        None \<Rightarrow> collect_assets_to_delete h w rest AssetDataToDelete
      | Some CurrentPackage \<Rightarrow>
          if package_safe_to_delete h w AssetDataToDelete
               (GetAssetsByPackageName h w (GetFName h w CurrentPackage)) True
          then collect_assets_to_delete h w rest (AssetDataToDelete @ [Data])
          else collect_assets_to_delete h w rest AssetDataToDelete)"

definition assets_to_delete :: "'w asset_host \<Rightarrow> string \<Rightarrow> 'w \<Rightarrow> asset_data list" where
  "assets_to_delete h TempCookFolder w =
     collect_assets_to_delete h w (GetAssetDataList h w TempCookFolder) []"

text \<open>The objects handed to \<open>ForceDeleteObjects\<close>: the assets that are not null.\<close>

definition objects_to_delete :: "'w asset_host \<Rightarrow> 'w \<Rightarrow> asset_data list \<Rightarrow> object_ptr list" where
  "objects_to_delete h w AssetDataToDelete =
     List.map_filter (GetAsset h w) AssetDataToDelete"

text \<open>
  The deletion at the end of a pass: \<open>DeleteAssets\<close>, and \<open>ForceDeleteObjects\<close> when
  that reports nothing deleted. The result is \<open>CurrentDeleted\<close> and the new world.
\<close>

definition delete_pass :: "'w asset_host \<Rightarrow> 'w \<Rightarrow> asset_data list \<Rightarrow> int \<times> 'w" where
  "delete_pass h w AssetDataToDelete =
     (let r = DeleteAssets h w AssetDataToDelete
      in if fst r \<le> 0
         then ForceDeleteObjects h (snd r) (objects_to_delete h (snd r) AssetDataToDelete)
         else r)"

text \<open>
  The \<open>while ( bDidDeleteAsset )\<close> loop, from the state in which the flag is set. The
  result is \<open>DeletedCount\<close> and the world when the loop is left, and \<open>None\<close> when it
  is never left.
\<close>

partial_function (option) clean_passes ::
  "'w asset_host \<Rightarrow> string \<Rightarrow> 'w \<Rightarrow> int \<Rightarrow> (int \<times> 'w) option" where
  "clean_passes h TempCookFolder w DeletedCount =
     (if assets_to_delete h TempCookFolder w = [] then Some (DeletedCount, w)
      else if 0 < fst (delete_pass h w (assets_to_delete h TempCookFolder w))
      then clean_passes h TempCookFolder
             (snd (delete_pass h w (assets_to_delete h TempCookFolder w)))
             (DeletedCount + fst (delete_pass h w (assets_to_delete h TempCookFolder w)))
      else Some (DeletedCount, snd (delete_pass h w (assets_to_delete h TempCookFolder w))))"

text \<open>
  The runtime settings are null or hold the temporary cook folder. The result is the
  events of the run and the world it leaves.
\<close>

definition CleanUpTempFolder ::
  "'w asset_host \<Rightarrow> string option \<Rightarrow> 'w \<Rightarrow> (event list \<times> 'w) option" where
  "CleanUpTempFolder h HoudiniRuntimeSettings w =
     (let evs = [SlateNotification [Txt ''Cleaning up Houdini Engine temporary folder'']]
      in case HoudiniRuntimeSettings of
           None \<Rightarrow> Some (evs, w)
         | Some TempCookFolder \<Rightarrow>
             (case clean_passes h TempCookFolder w 0 of
                None \<Rightarrow> None
              | Some r \<Rightarrow>
                  Some (evs @ [SlateNotification [Txt ''Deleted '', Num (fst r),
                                                  Txt '' temporary files.''],
                               LogMessage [Txt ''Deleted '', Num (fst r),
                                           Txt '' temporary files.'']],
                        snd r)))"

subsection \<open>Commands and the functions they run\<close>

text \<open>The member functions of the module that are given to delegates.\<close>

datatype member_fn =
    Fn_OpenInHoudini | Fn_SaveHIPFile | Fn_ReportBug | Fn_CleanUpTempFolder
  | Fn_BakeAllAssets | Fn_PauseAssetCooking
  | Fn_RecookSelection | Fn_RebuildSelection | Fn_BakeSelection
  | Fn_RecookAllAssets | Fn_RebuildAllAssets
  | Fn_CanOpenInHoudini | Fn_CanSaveHIPFile | Fn_CanReportBug | Fn_CanCleanUpTempFolder
  | Fn_CanBakeAllAssets | Fn_CanPauseAssetCooking | Fn_IsAssetCookingPaused

text \<open>The members of \<open>FHoudiniEngineCommands\<close>.\<close>

datatype ui_command =
    Cmd_OpenInHoudini | Cmd_SaveHIPFile | Cmd_ReportBug | Cmd_CleanUpTempFolder
  | Cmd_BakeAllAssets | Cmd_PauseAssetCooking | Cmd_CookSelec | Cmd_RebuildSelec | Cmd_BakeSelec

text \<open>
  An entry of a \<open>FUICommandList\<close>: the execute delegate, the can-execute delegate and
  the is-checked delegate, the last two \<open>None\<close> when unbound.
\<close>

record ui_action =
  ExecuteAction :: member_fn
  CanExecuteAction :: "member_fn option"
  IsActionChecked :: "member_fn option"

definition MapAction ::
  "ui_command \<Rightarrow> member_fn \<Rightarrow> member_fn option \<Rightarrow> member_fn option
     \<Rightarrow> (ui_command \<times> ui_action) list \<Rightarrow> (ui_command \<times> ui_action) list" where
  "MapAction cmd ex can chk cmds =
     cmds @ [(cmd, \<lparr>ExecuteAction = ex, CanExecuteAction = can, IsActionChecked = chk\<rparr>)]"

text \<open>The command list that \<open>BindMenuCommands\<close> builds, in the order of the source.\<close>

definition bound_commands :: "(ui_command \<times> ui_action) list" where
  "bound_commands =
     (MapAction Cmd_BakeSelec Fn_BakeSelection None None
     (MapAction Cmd_RebuildSelec Fn_RebuildSelection None None
     (MapAction Cmd_CookSelec Fn_RecookSelection None None
     (MapAction Cmd_PauseAssetCooking Fn_PauseAssetCooking (Some Fn_CanPauseAssetCooking)
        (Some Fn_IsAssetCookingPaused)
     (MapAction Cmd_BakeAllAssets Fn_BakeAllAssets (Some Fn_CanBakeAllAssets) None
     (MapAction Cmd_CleanUpTempFolder Fn_CleanUpTempFolder (Some Fn_CanCleanUpTempFolder) None
     (MapAction Cmd_ReportBug Fn_ReportBug (Some Fn_CanReportBug) None
     (MapAction Cmd_SaveHIPFile Fn_SaveHIPFile (Some Fn_CanSaveHIPFile) None
     (MapAction Cmd_OpenInHoudini Fn_OpenInHoudini (Some Fn_CanOpenInHoudini) None
        [])))))))))"

text \<open>The entries that \<open>AddHoudiniMenuExtension\<close> puts in the Houdini section.\<close>

definition AddHoudiniMenuExtension :: "ui_command list" where
  "AddHoudiniMenuExtension =
     [Cmd_OpenInHoudini, Cmd_SaveHIPFile, Cmd_ReportBug, Cmd_CleanUpTempFolder,
      Cmd_BakeAllAssets, Cmd_PauseAssetCooking]"

text \<open>
  The static \<open>FAutoConsoleCommand\<close> objects of \<open>RegisterConsoleCommands\<close>: name, help
  text and delegate, in the order of the source.
\<close>

definition console_command_table :: "(string \<times> string \<times> member_fn) list" where
  "console_command_table =
     [(''Houdini.Open'', ''Open the scene in Houdini.'', Fn_OpenInHoudini),
      (''Houdini.Save'', ''Save the current Houdini scene to a hip file.'', Fn_SaveHIPFile),
      (''Houdini.BakeAll'',
       ''Bakes and replaces with blueprints all Houdini Asset Actors in the current level.'',
       Fn_BakeAllAssets),
      (''Houdini.Clean'', ''Cleans up unused/unreferenced Houdini Engine temporary files.'',
       Fn_CleanUpTempFolder),
      (''Houdini.Pause'', ''Pauses Houdini Engine Asset cooking.'', Fn_PauseAssetCooking),
      (''Houdini.CookAll'', ''Re-cooks all Houdini Engine Asset Actors in the current level.'',
       Fn_RecookAllAssets),
      (''Houdini.RebuildAll'', ''Rebuilds all Houdini Engine Asset Actors in the current level.'',
       Fn_RebuildAllAssets),
      (''Houdini.Cook'', ''Re-cooks selected Houdini Asset Actors in the current level.'',
       Fn_RecookSelection),
      (''Houdini.Rebuild'', ''Rebuilds selected Houdini Asset Actors in the current level.'',
       Fn_RebuildSelection),
      (''Houdini.Bake'',
       ''Bakes and replaces with blueprints selected Houdini Asset Actors in the current level.'',
       Fn_BakeSelection)]"

subsection \<open>Registration with the editor\<close>

text \<open>
  The state that startup and shutdown act on. The first group is what the module finds:
  the globals \<open>GUnrealEd\<close> and \<open>GEditor\<close> (set or null), the answers of
  \<open>IsRunningCommandlet\<close>, \<open>UObjectInitialized\<close> and
  \<open>IPlacementModeModule::IsAvailable\<close>, the loaded modules, and two runtime settings.
  The second group is the registries of the editor, keyed as the source keys them. The
  third group is the members of \<open>FHoudiniEngineEditor\<close>; a shared pointer is
  \<open>None\<close> when it is not valid. \<open>ConsoleStatics\<close> tells whether the static console
  command objects have been constructed.
\<close>

record editor_state =
  GUnrealEd_set :: bool
  GEditor_set :: bool
  RunningCommandlet :: bool
  UObjects_initialized :: bool
  PlacementMode_available :: bool
  LoadedModules :: "string set"
  bHidePlacementModeHoudiniTools :: bool
  CustomHoudiniTools :: "string list"

  RegisteredAssetTypeActions :: "string set"
  RegisteredBrokers :: "string set"
  ComponentVisualizers :: "string \<rightharpoonup> string"
  CustomClassLayouts :: "string \<rightharpoonup> string"
  ActorFactories :: "string list"
  SlateStyles :: "string set"
  CustomRenderers :: "string \<rightharpoonup> string"
  MenuExtenders :: "string set"
  GlobalLevelEditorActions :: "(ui_command \<times> ui_action) list"
  ConsoleCommands :: "string \<rightharpoonup> member_fn"
  UndoClients :: "string set"
  EditorModes :: "string set"
  PlacementCategories :: "string set"

  AssetTypeActions :: "string list"
  SplineComponentVisualizer :: "string option"
  HandleComponentVisualizer :: "string option"
  HoudiniAssetBroker :: "string option"
  StyleSet :: "string option"
  MainMenuExtender :: "string option"
  HEngineCommands :: "(ui_command \<times> ui_action) list option"
  HoudiniTools :: "string list"
  ConsoleStatics :: bool
  HoudiniEngineEditorInstance :: bool

definition LoadModuleChecked :: "string \<Rightarrow> editor_state \<Rightarrow> editor_state" where
  "LoadModuleChecked name s = s\<lparr>LoadedModules := insert name (LoadedModules s)\<rparr>"

definition RegisterAssetTypeAction :: "string \<Rightarrow> editor_state \<Rightarrow> editor_state" where
  "RegisterAssetTypeAction Action s =
     s\<lparr>RegisteredAssetTypeActions := insert Action (RegisteredAssetTypeActions s),
       AssetTypeActions := AssetTypeActions s @ [Action]\<rparr>"

definition RegisterAssetTypeActions :: "editor_state \<Rightarrow> editor_state" where
  "RegisterAssetTypeActions s =
     RegisterAssetTypeAction ''FHoudiniAssetTypeActions'' (LoadModuleChecked ''AssetTools'' s)"

definition UnregisterAssetTypeActions :: "editor_state \<Rightarrow> editor_state" where
  "UnregisterAssetTypeActions s =
     (if ''AssetTools'' \<in> LoadedModules s
      then s\<lparr>RegisteredAssetTypeActions :=
                foldl (\<lambda>reg a. reg - {a}) (RegisteredAssetTypeActions s) (AssetTypeActions s),
             AssetTypeActions := []\<rparr>
      else s)"

definition RegisterAssetBrokers :: "editor_state \<Rightarrow> editor_state" where
  "RegisterAssetBrokers s =
     s\<lparr>HoudiniAssetBroker := Some ''FHoudiniAssetBroker'',
       RegisteredBrokers := insert ''FHoudiniAssetBroker'' (RegisteredBrokers s)\<rparr>"

definition UnregisterAssetBrokers :: "editor_state \<Rightarrow> editor_state" where
  "UnregisterAssetBrokers s =
     (if UObjects_initialized s
      then (case HoudiniAssetBroker s of
              None \<Rightarrow> s
            | Some b \<Rightarrow> s\<lparr>RegisteredBrokers := RegisteredBrokers s - {b}\<rparr>)
      else s)"

definition RegisterComponentVisualizers :: "editor_state \<Rightarrow> editor_state" where
  "RegisterComponentVisualizers s =
     (if GUnrealEd_set s
      then (let s1 = (if SplineComponentVisualizer s = None
                      then s\<lparr>SplineComponentVisualizer := Some ''FHoudiniSplineComponentVisualizer'',
                             ComponentVisualizers := (ComponentVisualizers s)
                               (''HoudiniSplineComponent'' \<mapsto> ''FHoudiniSplineComponentVisualizer'')\<rparr>
                      else s)
            in if HandleComponentVisualizer s1 = None
               then s1\<lparr>HandleComponentVisualizer := Some ''FHoudiniHandleComponentVisualizer'',
                       ComponentVisualizers := (ComponentVisualizers s1)
                         (''HoudiniHandleComponent'' \<mapsto> ''FHoudiniHandleComponentVisualizer'')\<rparr>
               else s1)
      else s)"

definition UnregisterComponentVisualizers :: "editor_state \<Rightarrow> editor_state" where
  "UnregisterComponentVisualizers s =
     (if GUnrealEd_set s
      then (let s1 = (if SplineComponentVisualizer s \<noteq> None
                      then s\<lparr>ComponentVisualizers :=
                               (ComponentVisualizers s)(''HoudiniSplineComponent'' := None)\<rparr>
                      else s)
            in if HandleComponentVisualizer s1 \<noteq> None
               then s1\<lparr>ComponentVisualizers :=
                         (ComponentVisualizers s1)(''HoudiniHandleComponent'' := None)\<rparr>
               else s1)
      else s)"

definition RegisterDetails :: "editor_state \<Rightarrow> editor_state" where
  "RegisterDetails s =
     (let s1 = LoadModuleChecked ''PropertyEditor'' s
      in s1\<lparr>CustomClassLayouts := (CustomClassLayouts s1)
               (''HoudiniAssetComponent'' \<mapsto> ''FHoudiniAssetComponentDetails'',
                ''HoudiniRuntimeSettings'' \<mapsto> ''FHoudiniRuntimeSettingsDetails'')\<rparr>)"

definition UnregisterDetails :: "editor_state \<Rightarrow> editor_state" where
  "UnregisterDetails s =
     (if ''PropertyEditor'' \<in> LoadedModules s
      then s\<lparr>CustomClassLayouts := (CustomClassLayouts s)
               (''HoudiniAssetComponent'' := None, ''HoudiniRuntimeSettings'' := None)\<rparr>
      else s)"

definition RegisterActorFactories :: "editor_state \<Rightarrow> editor_state" where
  "RegisterActorFactories s =
     (if GEditor_set s
      then s\<lparr>ActorFactories := ActorFactories s @ [''UHoudiniAssetActorFactory'']\<rparr>
      else s)"

definition GetStyleSetName :: string where
  "GetStyleSetName = ''HoudiniEngineStyle''"

definition RegisterStyleSet :: "editor_state \<Rightarrow> editor_state" where
  "RegisterStyleSet s =
     (if StyleSet s = None
      then s\<lparr>StyleSet := Some GetStyleSetName,
             SlateStyles := insert GetStyleSetName (SlateStyles s)\<rparr>
      else s)"

definition UnregisterStyleSet :: "editor_state \<Rightarrow> editor_state" where
  "UnregisterStyleSet s =
     (case StyleSet s of
        None \<Rightarrow> s
      | Some style \<Rightarrow> s\<lparr>SlateStyles := SlateStyles s - {style}, StyleSet := None\<rparr>)"

definition RegisterThumbnails :: "editor_state \<Rightarrow> editor_state" where
  "RegisterThumbnails s =
     s\<lparr>CustomRenderers := (CustomRenderers s)
         (''HoudiniAsset'' \<mapsto> ''UHoudiniAssetThumbnailRenderer'')\<rparr>"

definition UnregisterThumbnails :: "editor_state \<Rightarrow> editor_state" where
  "UnregisterThumbnails s =
     (if UObjects_initialized s
      then s\<lparr>CustomRenderers := (CustomRenderers s)(''HoudiniAsset'' := None)\<rparr>
      else s)"

definition BindMenuCommands :: "editor_state \<Rightarrow> editor_state" where
  "BindMenuCommands s =
     (let s1 = LoadModuleChecked ''LevelEditor'' (s\<lparr>HEngineCommands := Some bound_commands\<rparr>)
      in s1\<lparr>GlobalLevelEditorActions := GlobalLevelEditorActions s1 @ bound_commands\<rparr>)"

definition ExtendMenu :: "editor_state \<Rightarrow> editor_state" where
  "ExtendMenu s =
     (if \<not> RunningCommandlet s
      then (let s1 = BindMenuCommands s;
                s2 = LoadModuleChecked ''LevelEditor''
                       (s1\<lparr>MainMenuExtender := Some ''AddHoudiniMenuExtension''\<rparr>)
            in s2\<lparr>MenuExtenders := insert ''AddHoudiniMenuExtension'' (MenuExtenders s2)\<rparr>)
      else s)"

definition RegisterConsoleCommands :: "editor_state \<Rightarrow> editor_state" where
  "RegisterConsoleCommands s =
     (if ConsoleStatics s then s
      else s\<lparr>ConsoleStatics := True,
             ConsoleCommands :=
               foldl (\<lambda>reg c. reg(fst c \<mapsto> snd (snd c))) (ConsoleCommands s)
                 console_command_table\<rparr>)"

definition RegisterForUndo :: "editor_state \<Rightarrow> editor_state" where
  "RegisterForUndo s =
     (if GUnrealEd_set s
      then s\<lparr>UndoClients := insert ''FHoudiniEngineEditor'' (UndoClients s)\<rparr>
      else s)"

definition UnregisterForUndo :: "editor_state \<Rightarrow> editor_state" where
  "UnregisterForUndo s =
     (if GUnrealEd_set s
      then s\<lparr>UndoClients := UndoClients s - {''FHoudiniEngineEditor''}\<rparr>
      else s)"

definition RegisterModes :: "editor_state \<Rightarrow> editor_state" where
  "RegisterModes s = s\<lparr>EditorModes := insert ''EM_HoudiniShelfEdModeId'' (EditorModes s)\<rparr>"

definition UnregisterModes :: "editor_state \<Rightarrow> editor_state" where
  "UnregisterModes s = s\<lparr>EditorModes := EditorModes s - {''EM_HoudiniShelfEdModeId''}\<rparr>"

text \<open>\<open>TArray::Insert( Item, Index )\<close> for an index in range.\<close>

definition Insert :: "'a \<Rightarrow> nat \<Rightarrow> 'a list \<Rightarrow> 'a list" where
  "Insert x idx xs = take idx xs @ [x] @ drop idx xs"

text \<open>
  The tools are kept by name. The runtime settings are asserted to exist, and the model
  starts after the assertion.
\<close>

definition AddDefaultHoudiniToolToArray :: "string list \<Rightarrow> string list" where
  "AddDefaultHoudiniToolToArray ToolArray =
     Insert ''Curve Instancer'' 3
       (Insert ''Polyreducer'' 2
         (Insert ''Boolean'' 1
           (Insert ''Rock Generator'' 0 ToolArray)))"

definition RegisterPlacementModeExtensions :: "editor_state \<Rightarrow> editor_state" where
  "RegisterPlacementModeExtensions s =
     (if bHidePlacementModeHoudiniTools s then s
      else s\<lparr>HoudiniTools := HoudiniTools s @ AddDefaultHoudiniToolToArray (CustomHoudiniTools s),
             PlacementCategories := insert ''HoudiniEngine'' (PlacementCategories s)\<rparr>)"

definition UnregisterPlacementModeExtensions :: "editor_state \<Rightarrow> editor_state" where
  "UnregisterPlacementModeExtensions s =
     (if PlacementMode_available s
      then s\<lparr>PlacementCategories := PlacementCategories s - {''HoudiniEngine''}\<rparr>
      else s)"

text \<open>
  Startup and shutdown, call by call. The first argument tells whether the macro
  \<open>HOUDINI_MODE\<close> is defined.
\<close>

definition StartupModule :: "bool \<Rightarrow> editor_state \<Rightarrow> editor_state" where
  "StartupModule HOUDINI_MODE s =
     (let s1 = RegisterAssetTypeActions s;
          s2 = RegisterAssetBrokers s1;
          s3 = RegisterComponentVisualizers s2;
          s4 = RegisterDetails s3;
          s5 = RegisterActorFactories s4;
          s6 = RegisterStyleSet s5;
          s7 = RegisterThumbnails s6;
          s8 = ExtendMenu s7;
          s9 = RegisterConsoleCommands s8;
          s10 = RegisterForUndo s9;
          s11 = (if HOUDINI_MODE then RegisterModes s10 else s10);
          s12 = RegisterPlacementModeExtensions s11
      in s12\<lparr>HoudiniEngineEditorInstance := True\<rparr>)"

definition ShutdownModule :: "bool \<Rightarrow> editor_state \<Rightarrow> editor_state" where
  "ShutdownModule HOUDINI_MODE s =
     (let s1 = UnregisterAssetTypeActions s;
          s2 = UnregisterDetails s1;
          s3 = UnregisterThumbnails s2;
          s4 = UnregisterComponentVisualizers s3;
          s5 = UnregisterForUndo s4;
          s6 = (if HOUDINI_MODE then UnregisterModes s5 else s5)
      in UnregisterPlacementModeExtensions s6)"

subsection \<open>What a bake loop maintains\<close>

text \<open>
  The counter equals the number of calls that returned success, and every call was made
  for a component of the given origin that was valid and idle in the world of the call.
\<close>

definition bake_invariant ::
  "'w component_api \<Rightarrow> (comp \<Rightarrow> 'w \<Rightarrow> bool) \<Rightarrow> 'w bake_state \<Rightarrow> bool" where
  "bake_invariant api origin s \<longleftrightarrow>
     BakedCount s = int (length (filter (\<lambda>r. snd (snd r)) (replace_calls s))) \<and>
     list_all (\<lambda>r. origin (fst r) (fst (snd r)) \<and>
                    IsComponentValid api (fst (snd r)) (fst r) \<and>
                    \<not> IsInstantiatingOrCooking api (fst (snd r)) (fst r))
       (replace_calls s)"

subsection \<open>What the scan checks before it lists an asset\<close>



subsection \<open>What is registered\<close>

text \<open>
  No Houdini entry in the six registries that \<open>ShutdownModule\<close> deals with: asset type
  actions, detail customizers, thumbnail renderers, component visualizers, undo clients
  and placement categories.
\<close>

definition unregistered_at_shutdown :: "editor_state \<Rightarrow> bool" where
  "unregistered_at_shutdown s \<longleftrightarrow>
     ''FHoudiniAssetTypeActions'' \<notin> RegisteredAssetTypeActions s \<and>
     CustomClassLayouts s ''HoudiniAssetComponent'' = None \<and>
     CustomClassLayouts s ''HoudiniRuntimeSettings'' = None \<and>
     CustomRenderers s ''HoudiniAsset'' = None \<and>
     ComponentVisualizers s ''HoudiniSplineComponent'' = None \<and>
     ComponentVisualizers s ''HoudiniHandleComponent'' = None \<and>
     ''FHoudiniEngineEditor'' \<notin> UndoClients s \<and>
     ''HoudiniEngine'' \<notin> PlacementCategories s"

text \<open>No Houdini entry in any of the eleven registries that \<open>StartupModule\<close> fills.\<close>

definition no_houdini_extension_registered :: "editor_state \<Rightarrow> bool" where
  "no_houdini_extension_registered s \<longleftrightarrow>
     unregistered_at_shutdown s \<and>
     ''FHoudiniAssetBroker'' \<notin> RegisteredBrokers s \<and>
     ''UHoudiniAssetActorFactory'' \<notin> set (ActorFactories s) \<and>
     GetStyleSetName \<notin> SlateStyles s \<and>
     ''AddHoudiniMenuExtension'' \<notin> MenuExtenders s \<and>
     list_all (\<lambda>c. ConsoleCommands s (fst c) = None) console_command_table"

subsection \<open>Console commands and bound commands\<close>

text \<open>
  The console command that goes with a command of the user interface, as the
  specification pairs them.
\<close>

definition corresponding_commands :: "(string \<times> ui_command) list" where
  "corresponding_commands =
     [(''Houdini.Open'', Cmd_OpenInHoudini), (''Houdini.Save'', Cmd_SaveHIPFile),
      (''Houdini.BakeAll'', Cmd_BakeAllAssets), (''Houdini.Clean'', Cmd_CleanUpTempFolder),
      (''Houdini.Pause'', Cmd_PauseAssetCooking), (''Houdini.Cook'', Cmd_CookSelec),
      (''Houdini.Rebuild'', Cmd_RebuildSelec), (''Houdini.Bake'', Cmd_BakeSelec)]"

text \<open>The function a console command runs, and the function a bound command runs.\<close>

definition console_handler :: "string \<Rightarrow> member_fn option" where
  "console_handler name = map_of (map (\<lambda>c. (fst c, snd (snd c))) console_command_table) name"

definition bound_handler :: "ui_command \<Rightarrow> member_fn option" where
  "bound_handler cmd = map_option ExecuteAction (map_of bound_commands cmd)"

subsection \<open>Example inputs\<close>

text \<open>Four selected objects: a Houdini asset actor, the sky sphere, a plain actor, an asset.\<close>

definition rock_actor :: uobject where
  "rock_actor = \<lparr>object_name = ''Rock'', class_name = Some ''HoudiniAssetActor'',
                  is_actor = True, is_houdini_asset_actor = True\<rparr>"

definition sky_sphere :: uobject where
  "sky_sphere = \<lparr>object_name = ''SkySphere'', class_name = Some ''BP_Sky_Sphere_C'',
                  is_actor = True, is_houdini_asset_actor = False\<rparr>"

definition cube_actor :: uobject where
  "cube_actor = \<lparr>object_name = ''Cube'', class_name = Some ''StaticMeshActor'',
                  is_actor = True, is_houdini_asset_actor = False\<rparr>"

definition rock_mesh :: uobject where
  "rock_mesh = \<lparr>object_name = ''SM_Rock'', class_name = Some ''StaticMesh'',
                 is_actor = False, is_houdini_asset_actor = False\<rparr>"

text \<open>
  A world that is the list of the components baked so far. Component 0 is not valid,
  component 3 is cooking, and baking fails for component 2 and for a component that was
  baked before.
\<close>

definition example_api :: "comp list component_api" where
  "example_api =
     \<lparr>IsComponentValid = (\<lambda>w c. c \<noteq> 0),
      IsInstantiatingOrCooking = (\<lambda>w c. c = 3),
      IsValidLowLevel = (\<lambda>w c. True),
      AssetName = (\<lambda>w c. ''HoudiniAssetActor''),
      GetHoudiniAssetComponent = (\<lambda>w a. if object_name a = ''Rock'' then Some 1 else None),
      ReplaceHoudiniActorWithBlueprint = (\<lambda>w c. (c \<noteq> 2 \<and> c \<notin> set w, c # w)),
      StartHoudiniTicking = (\<lambda>w c. w)\<rparr>"

text \<open>
  A desktop platform whose dialog returns one file name, and a disk that is the set of
  the files on it, on which the engine writes the file it is asked for.
\<close>

definition example_save_host :: save_host where
  "example_save_host =
     \<lparr>DesktopPlatform = Some (\<lambda>handle. (True, [''C:/scenes/rock.hip''])),
      Utils_IsInitialized = True,
      OSWindowHandle = Some ''HWND''\<rparr>"

definition example_open_host :: "string set open_host" where
  "example_open_host =
     \<lparr>Engine_IsInitialized = True,
      UserTempDir = ''/tmp/'',
      CreateTempFilename = (\<lambda>disk dir prefix ext. dir @ prefix @ ''0001'' @ ext),
      Hapi_SaveHIPFile = (\<lambda>disk p. insert p disk),
      FileExists = (\<lambda>disk p. p \<in> disk),
      GetLibHAPILocation = ''/opt/hfs/bin''\<rparr>"

text \<open>
  A temporary folder with a material, a texture and a mesh. The world is the list of the
  assets still there. The packages are the objects 10, 20 and 30, the assets the objects
  11, 21 and 31. As long as the material exists, the texture is referenced by the object
  12, whose outer is the material. The mesh is referenced by the object 32, whose outer
  is the object 40, a level. \<open>DeleteAssets\<close> deletes what it is given and reports how
  many assets went; \<open>ForceDeleteObjects\<close> deletes nothing.
\<close>

definition material :: asset_data where
  "material = \<lparr>PackageName = ''/Game/HoudiniEngine/Temp/M_rock'', AssetName_of = ''M_rock''\<rparr>"

definition texture :: asset_data where
  "texture = \<lparr>PackageName = ''/Game/HoudiniEngine/Temp/T_rock'', AssetName_of = ''T_rock''\<rparr>"

definition mesh :: asset_data where
  "mesh = \<lparr>PackageName = ''/Game/HoudiniEngine/Temp/SM_rock'', AssetName_of = ''SM_rock''\<rparr>"

definition example_asset_host :: "asset_data list asset_host" where
  "example_asset_host =
     \<lparr>GetAssetDataList = (\<lambda>w folder. w),
      GetPackage = (\<lambda>w d. if d = material then Some 10 else if d = texture then Some 20
                          else if d = mesh then Some 30 else None),
      GetAsset = (\<lambda>w d. if d = material then Some 11 else if d = texture then Some 21
                        else if d = mesh then Some 31 else None),
      GetFName = (\<lambda>w p. if p = 10 then PackageName material
                        else if p = 20 then PackageName texture
                        else if p = 30 then PackageName mesh else []),
      GetAssetsByPackageName = (\<lambda>w name. filter (\<lambda>d. PackageName d = name) w),
      IsReferenced = (\<lambda>w ob. if ob = 21 \<and> material \<in> set w then (True, [12])
                              else if ob = 31 then (True, [32]) else (False, [])),
      GetOuter = (\<lambda>w p. if p = 12 then Some 11 else if p = 11 then Some 10
                        else if p = 21 then Some 20 else if p = 31 then Some 30
                        else if p = 32 then Some 40 else None),
      DeleteAssets = (\<lambda>w ds. (int (length (filter (\<lambda>d. d \<in> set ds) w)),
                               filter (\<lambda>d. d \<notin> set ds) w)),
      ForceDeleteObjects = (\<lambda>w os. (0, w))\<rparr>"

text \<open>
  The same folder on a host whose \<open>DeleteAssets\<close> reports every asset it is given as
  deleted, while the folder goes on listing them.
\<close>

definition stubborn_host :: "asset_data list asset_host" where
  "stubborn_host = example_asset_host\<lparr>DeleteAssets := (\<lambda>w ds. (int (length ds), w))\<rparr>"



text \<open>An editor in which the module has not been started.\<close>

definition fresh_editor :: editor_state where
  "fresh_editor =
     \<lparr>GUnrealEd_set = True, GEditor_set = True, RunningCommandlet = False,
      UObjects_initialized = True, PlacementMode_available = True, LoadedModules = {},
      bHidePlacementModeHoudiniTools = False, CustomHoudiniTools = [],
      RegisteredAssetTypeActions = {}, RegisteredBrokers = {},
      ComponentVisualizers = Map.empty, CustomClassLayouts = Map.empty,
      ActorFactories = [], SlateStyles = {}, CustomRenderers = Map.empty,
      MenuExtenders = {}, GlobalLevelEditorActions = [], ConsoleCommands = Map.empty,
      UndoClients = {}, EditorModes = {}, PlacementCategories = {},
      AssetTypeActions = [], SplineComponentVisualizer = None,
      HandleComponentVisualizer = None, HoudiniAssetBroker = None, StyleSet = None,
      MainMenuExtender = None, HEngineCommands = None, HoudiniTools = [],
      ConsoleStatics = False, HoudiniEngineEditorInstance = False\<rparr>"

section \<open>Properties\<close>

subsection \<open>The world selection\<close>

lemma add_selected_actors_no_sky:
  "\<forall>a\<in>set ws. class_name a \<noteq> Some ''BP_Sky_Sphere_C'' \<Longrightarrow>
   \<forall>a\<in>set (add_selected_actors sel ws). class_name a \<noteq> Some ''BP_Sky_Sphere_C''"
proof (induction sel arbitrary: ws)
  case Nil
  then show ?case by simp
next
  case (Cons it its)
  show ?case
  proof (cases "Cast_AActor it")
    case None
    then show ?thesis using Cons by simp
  next
    case (Some actor)
    show ?thesis
    proof (cases "class_name actor")
      case None
      then have "\<forall>a\<in>set (ws @ [actor]). class_name a \<noteq> Some ''BP_Sky_Sphere_C''"
        using Cons.prems by simp
      from Cons.IH[OF this] show ?thesis using Some None by simp
    next
      case (Some n)
      note cn = this
      show ?thesis
      proof (cases "n = ''BP_Sky_Sphere_C''")
        case True
        then show ?thesis using Cons \<open>Cast_AActor it = Some actor\<close> cn by simp
      next
        case False
        then have "\<forall>a\<in>set (ws @ [actor]). class_name a \<noteq> Some ''BP_Sky_Sphere_C''"
          using Cons.prems cn by simp
        from Cons.IH[OF this] show ?thesis
          using \<open>Cast_AActor it = Some actor\<close> cn False by simp
      qed
    qed
  qed
qed

lemma RemoveAt_filter:
  "idx < length ws \<Longrightarrow> \<not> P (ws ! idx) \<Longrightarrow>
   filter P (take idx (RemoveAt idx ws)) @ drop idx (RemoveAt idx ws)
     = filter P (take (Suc idx) ws) @ drop (Suc idx) ws"
  by (simp add: RemoveAt_def take_Suc_conv_app_nth min_def)

text \<open>The backward loop removes exactly the elements that are no Houdini asset actors.\<close>

lemma remove_non_houdini_filter:
  "n \<le> length ws \<Longrightarrow>
   remove_non_houdini n ws = filter is_houdini_asset_actor (take n ws) @ drop n ws"
proof (induction n arbitrary: ws)
  case 0
  then show ?case by simp
next
  case (Suc idx)
  then have lt: "idx < length ws" by simp
  show ?case
  proof (cases "is_houdini_asset_actor (ws ! idx)")
    case True
    then show ?thesis using Suc.IH[of ws] lt
      by (simp add: Cast_AHoudiniAssetActor_def take_Suc_conv_app_nth Cons_nth_drop_Suc)
  next
    case False
    have len: "idx \<le> length (RemoveAt idx ws)" using lt by (simp add: RemoveAt_def)
    show ?thesis
      using Suc.IH[OF len] RemoveAt_filter[of idx ws is_houdini_asset_actor, OF lt False] False
      by (simp add: Cast_AHoudiniAssetActor_def)
  qed
qed

lemma remove_non_houdini_all:
  "remove_non_houdini (length ws) ws = filter is_houdini_asset_actor ws"
  using remove_non_houdini_filter[of "length ws" ws] by simp

text \<open>
  C10. \<open>GetWorldSelection\<close> empties the array it is given, so its result is the one it
  gives on an empty array; the number it returns is the length of the array it filled;
  when only Houdini asset actors are asked for, every element is one; and no element has
  the class name \<open>BP_Sky_Sphere_C\<close>.
\<close>

theorem GetWorldSelection_result:
  assumes "GetWorldSelection WorldSelection GEditor bHoudiniAssetActorsOnly = (n, ws)"
  shows "GetWorldSelection [] GEditor bHoudiniAssetActorsOnly = (n, ws)
       \<and> n = int (length ws)
       \<and> (bHoudiniAssetActorsOnly \<longrightarrow> (\<forall>a\<in>set ws. is_houdini_asset_actor a))
       \<and> (\<forall>a\<in>set ws. class_name a \<noteq> Some ''BP_Sky_Sphere_C'')"
proof -
  let ?ws1 = "case GEditor of None \<Rightarrow> [] | Some sel \<Rightarrow> add_selected_actors sel []"
  have sky1: "\<forall>a\<in>set ?ws1. class_name a \<noteq> Some ''BP_Sky_Sphere_C''"
    using add_selected_actors_no_sky[of "[]"] by (cases GEditor) simp_all
  have ws: "ws = (if bHoudiniAssetActorsOnly then filter is_houdini_asset_actor ?ws1 else ?ws1)"
    and n: "n = int (length ws)"
    using assms by (auto simp: GetWorldSelection_def Let_def remove_non_houdini_all)
  have "GetWorldSelection [] GEditor bHoudiniAssetActorsOnly = (n, ws)"
    using assms by (simp add: GetWorldSelection_def)
  moreover have "bHoudiniAssetActorsOnly \<longrightarrow> (\<forall>a\<in>set ws. is_houdini_asset_actor a)"
    using ws by simp
  moreover have "\<forall>a\<in>set ws. class_name a \<noteq> Some ''BP_Sky_Sphere_C''"
    using ws sky1 by (cases bHoudiniAssetActorsOnly) simp_all
  ultimately show ?thesis using n by blast
qed

lemma example_selection:
  "GetWorldSelection [cube_actor]
     (Some [Some sky_sphere, Some rock_actor, None, Some rock_mesh, Some cube_actor]) True
   = (1, [rock_actor])"
  by (simp add: GetWorldSelection_def Cast_AActor_def Cast_AHoudiniAssetActor_def RemoveAt_def
      sky_sphere_def rock_actor_def rock_mesh_def cube_actor_def)

theorem GetWorldSelection_result_witness:
  "GetWorldSelection [cube_actor]
     (Some [Some sky_sphere, Some rock_actor, None, Some rock_mesh, Some cube_actor]) True
   = (1, [rock_actor])
   \<and> GetWorldSelection []
     (Some [Some sky_sphere, Some rock_actor, None, Some rock_mesh, Some cube_actor]) True
   = (1, [rock_actor])
   \<and> (1::int) = int (length [rock_actor])
   \<and> is_houdini_asset_actor rock_actor
   \<and> class_name rock_actor \<noteq> Some ''BP_Sky_Sphere_C''"
  using GetWorldSelection_result[OF example_selection] example_selection by simp

subsection \<open>The cooking switch\<close>

text \<open>
  C9. One call of \<open>PauseAssetCooking\<close> negates the global cooking flag, a second call
  gives the engine back as it was, and \<open>IsAssetCookingPaused\<close> is the negation of the
  flag.
\<close>

theorem PauseAssetCooking_involution:
  "GetEnableCookingGlobal (fst (fst (PauseAssetCooking api Itr (engine, w))))
     = (\<not> GetEnableCookingGlobal engine)
   \<and> fst (fst (PauseAssetCooking api' Itr' (fst (PauseAssetCooking api Itr (engine, w))))) = engine
   \<and> IsAssetCookingPaused engine = (\<not> GetEnableCookingGlobal engine)"
  by (simp add: PauseAssetCooking_def Let_def GetEnableCookingGlobal_def
      SetEnableCookingGlobal_def IsAssetCookingPaused_def)

theorem PauseAssetCooking_involution_witness:
  "GetEnableCookingGlobal (fst (fst (PauseAssetCooking example_api [Some 1, None]
      (\<lparr>bEnableCookingGlobal = True\<rparr>, [])))) = False
   \<and> fst (fst (PauseAssetCooking example_api [Some 1, None]
        (fst (PauseAssetCooking example_api [Some 1, None] (\<lparr>bEnableCookingGlobal = True\<rparr>, [])))))
     = \<lparr>bEnableCookingGlobal = True\<rparr>
   \<and> IsAssetCookingPaused \<lparr>bEnableCookingGlobal = True\<rparr> = False"
  using PauseAssetCooking_involution[of example_api "[Some 1, None]"
          "\<lparr>bEnableCookingGlobal = True\<rparr>" "[]" example_api "[Some 1, None]"]
  by (simp add: GetEnableCookingGlobal_def)

subsection \<open>Baking\<close>

lemma foldl_invariant:
  "P s0 \<Longrightarrow> (\<And>s x. x \<in> set xs \<Longrightarrow> P s \<Longrightarrow> P (f s x)) \<Longrightarrow> P (foldl f s0 xs)"
  by (induction xs arbitrary: s0) simp_all

lemma bake_if_idle_invariant:
  assumes "bake_invariant api origin s"
    and "origin c (bake_world s)"
    and "IsComponentValid api (bake_world s) c"
  shows "bake_invariant api origin (bake_if_idle api c s)"
  using assms by (simp add: bake_invariant_def bake_if_idle_def Let_def)

lemma bake_all_body_invariant:
  assumes "bake_invariant api (\<lambda>c w. Some c \<in> set Itr) s" and "p \<in> set Itr"
  shows "bake_invariant api (\<lambda>c w. Some c \<in> set Itr) (bake_all_body api s p)"
proof (cases p)
  case None
  then show ?thesis using assms(1) by (simp add: bake_all_body_def bake_invariant_def)
next
  case (Some c)
  show ?thesis
  proof (cases "IsComponentValid api (bake_world s) c")
    case True
    then show ?thesis
      using bake_if_idle_invariant[OF assms(1), of c] assms(2) Some
      by (simp add: bake_all_body_def)
  next
    case False
    then show ?thesis using assms(1) Some by (simp add: bake_all_body_def bake_invariant_def)
  qed
qed

lemma bake_selection_body_invariant:
  assumes "bake_invariant api
             (\<lambda>c w. \<exists>a\<in>set ws. is_houdini_asset_actor a \<and> GetHoudiniAssetComponent api w a = Some c) s"
    and "Idx < length ws"
  shows "bake_invariant api
           (\<lambda>c w. \<exists>a\<in>set ws. is_houdini_asset_actor a \<and> GetHoudiniAssetComponent api w a = Some c)
           (bake_selection_body api ws s Idx)"
proof (cases "is_houdini_asset_actor (ws ! Idx)")
  case False
  then show ?thesis using assms(1)
    by (simp add: bake_selection_body_def Cast_AHoudiniAssetActor_def)
next
  case True
  note haa = this
  show ?thesis
  proof (cases "GetHoudiniAssetComponent api (bake_world s) (ws ! Idx)")
    case None
    then show ?thesis using assms(1) haa
      by (simp add: bake_selection_body_def Cast_AHoudiniAssetActor_def bake_invariant_def)
  next
    case (Some c)
    show ?thesis
    proof (cases "IsComponentValid api (bake_world s) c")
      case False
      then show ?thesis using assms(1) haa Some
        by (simp add: bake_selection_body_def Cast_AHoudiniAssetActor_def bake_invariant_def)
    next
      case True
      have "\<exists>a\<in>set ws. is_houdini_asset_actor a \<and>
              GetHoudiniAssetComponent api (bake_world s) a = Some c"
        using assms(2) haa Some nth_mem by blast
      from bake_if_idle_invariant[OF assms(1) this True] show ?thesis
        using haa Some True by (simp add: bake_selection_body_def Cast_AHoudiniAssetActor_def)
    qed
  qed
qed

lemma BakeAllAssets_invariant:
  "bake_invariant api (\<lambda>c w. Some c \<in> set Itr) (BakeAllAssets api Itr w)"
proof -
  let ?s0 = "\<lparr>bake_world = w, BakedCount = 0,
              bake_log = [SlateNotification [Txt ''Baking all assets in the current level...'']],
              replace_calls = []\<rparr>"
  have "bake_invariant api (\<lambda>c w. Some c \<in> set Itr) ?s0" by (simp add: bake_invariant_def)
  then have "bake_invariant api (\<lambda>c w. Some c \<in> set Itr) (foldl (bake_all_body api) ?s0 Itr)"
    by (rule foldl_invariant) (rule bake_all_body_invariant)
  then show ?thesis by (simp add: BakeAllAssets_def Let_def bake_invariant_def)
qed

lemma GetWorldSelection_length: "fst (GetWorldSelection ws0 G b) = int (length (snd (GetWorldSelection ws0 G b)))"
  by (simp add: GetWorldSelection_def Let_def)

lemma BakeSelection_invariant:
  "bake_invariant api
     (\<lambda>c w. \<exists>a\<in>set (snd (GetWorldSelection [] GEditor True)).
              is_houdini_asset_actor a \<and> GetHoudiniAssetComponent api w a = Some c)
     (BakeSelection api GEditor w)"
proof (cases "fst (GetWorldSelection [] GEditor True) \<le> 0")
  case True
  then show ?thesis by (simp add: BakeSelection_def Let_def bake_invariant_def)
next
  case False
  let ?ws = "snd (GetWorldSelection [] GEditor True)"
  let ?P = "bake_invariant api
     (\<lambda>c w. \<exists>a\<in>set ?ws. is_houdini_asset_actor a \<and> GetHoudiniAssetComponent api w a = Some c)"
  let ?s0 = "\<lparr>bake_world = w, BakedCount = 0,
              bake_log = [SlateNotification
                [Txt ''Baking selected Houdini Asset Actors in the current level...'']],
              replace_calls = []\<rparr>"
  have n: "nat (fst (GetWorldSelection [] GEditor True)) = length ?ws"
    by (simp add: GetWorldSelection_length)
  have "?P ?s0" by (simp add: bake_invariant_def)
  then have "?P (foldl (bake_selection_body api ?ws) ?s0 [0 ..< length ?ws])"
  proof (rule foldl_invariant)
    fix s x assume "x \<in> set [0 ..< length ?ws]" and "?P s"
    then show "?P (bake_selection_body api ?ws s x)"
      using bake_selection_body_invariant[of api ?ws s x] by simp
  qed
  then show ?thesis using False n by (simp add: BakeSelection_def Let_def bake_invariant_def)
qed

text \<open>
  C6. In \<open>BakeAllAssets\<close> and in \<open>BakeSelection\<close>, every call of
  \<open>ReplaceHoudiniActorWithBlueprint\<close> is made for a component that is not null (it
  comes from the iterator, or from a selected Houdini asset actor), and that is valid and
  neither instantiating nor cooking in the world of the call. The count in the final
  notification and log line is the number of the calls that returned success. With no
  Houdini asset actor selected, \<open>BakeSelection\<close> makes no call and reports no count.
\<close>

theorem bake_counts_successful_replacements:
  "(let s = BakeAllAssets api Itr w in
      (\<forall>r\<in>set (replace_calls s). case r of (c, wc, ok) \<Rightarrow>
          Some c \<in> set Itr \<and> IsComponentValid api wc c \<and> \<not> IsInstantiatingOrCooking api wc c)
      \<and> (\<exists>pre. bake_log s = pre @
            [SlateNotification [Txt ''Baked '',
               Num (int (length (filter (\<lambda>r. snd (snd r)) (replace_calls s)))),
               Txt '' Houdini assets.''],
             LogMessage [Txt ''Baked all '',
               Num (int (length (filter (\<lambda>r. snd (snd r)) (replace_calls s)))),
               Txt '' Houdini assets in the current level.'']]))
   \<and> (let s = BakeSelection api GEditor w; sel = GetWorldSelection [] GEditor True in
      (\<forall>r\<in>set (replace_calls s). case r of (c, wc, ok) \<Rightarrow>
          (\<exists>a\<in>set (snd sel). is_houdini_asset_actor a \<and> GetHoudiniAssetComponent api wc a = Some c)
          \<and> IsComponentValid api wc c \<and> \<not> IsInstantiatingOrCooking api wc c)
      \<and> (if fst sel \<le> 0
          then replace_calls s = [] \<and>
               bake_log s = [LogMessage [Txt ''No Houdini Assets selected in the world outliner'']]
          else (\<exists>pre. bake_log s = pre @
            [SlateNotification [Txt ''Baked '',
               Num (int (length (filter (\<lambda>r. snd (snd r)) (replace_calls s)))),
               Txt '' Houdini assets.''],
             LogMessage [Txt ''Baked all '',
               Num (int (length (filter (\<lambda>r. snd (snd r)) (replace_calls s)))),
               Txt '' Houdini assets in the current level.'']])))"
proof -
  have all_calls: "\<forall>r\<in>set (replace_calls (BakeAllAssets api Itr w)). case r of (c, wc, ok) \<Rightarrow>
          Some c \<in> set Itr \<and> IsComponentValid api wc c \<and> \<not> IsInstantiatingOrCooking api wc c"
    using BakeAllAssets_invariant[of api Itr w]
    by (auto simp: bake_invariant_def list_all_iff)
  have all_count: "BakedCount (BakeAllAssets api Itr w)
      = int (length (filter (\<lambda>r. snd (snd r)) (replace_calls (BakeAllAssets api Itr w))))"
    using BakeAllAssets_invariant[of api Itr w] by (simp add: bake_invariant_def)
  have all_log: "\<exists>pre. bake_log (BakeAllAssets api Itr w) = pre @
            [SlateNotification [Txt ''Baked '', Num (BakedCount (BakeAllAssets api Itr w)),
               Txt '' Houdini assets.''],
             LogMessage [Txt ''Baked all '', Num (BakedCount (BakeAllAssets api Itr w)),
               Txt '' Houdini assets in the current level.'']]"
    by (simp add: BakeAllAssets_def Let_def bake_report_def)
  let ?sel = "GetWorldSelection [] GEditor True"
  let ?s = "BakeSelection api GEditor w"
  have sel_calls: "\<forall>r\<in>set (replace_calls ?s). case r of (c, wc, ok) \<Rightarrow>
          (\<exists>a\<in>set (snd ?sel). is_houdini_asset_actor a \<and> GetHoudiniAssetComponent api wc a = Some c)
          \<and> IsComponentValid api wc c \<and> \<not> IsInstantiatingOrCooking api wc c"
    using BakeSelection_invariant[of api GEditor w]
    by (fastforce simp: bake_invariant_def list_all_iff)
  have sel_count: "BakedCount ?s = int (length (filter (\<lambda>r. snd (snd r)) (replace_calls ?s)))"
    using BakeSelection_invariant[of api GEditor w] by (simp add: bake_invariant_def)
  have sel_none: "fst ?sel \<le> 0 \<Longrightarrow> replace_calls ?s = [] \<and>
               bake_log ?s = [LogMessage [Txt ''No Houdini Assets selected in the world outliner'']]"
    by (simp add: BakeSelection_def Let_def)
  have sel_log: "\<not> fst ?sel \<le> 0 \<Longrightarrow> \<exists>pre. bake_log ?s = pre @
            [SlateNotification [Txt ''Baked '', Num (BakedCount ?s), Txt '' Houdini assets.''],
             LogMessage [Txt ''Baked all '', Num (BakedCount ?s),
               Txt '' Houdini assets in the current level.'']]"
    by (simp add: BakeSelection_def Let_def bake_report_def)
  show ?thesis
    unfolding Let_def
    using all_calls all_log sel_calls sel_none sel_log
    unfolding all_count sel_count
    by (cases "fst ?sel \<le> 0") simp_all
qed


lemma example_bake_all:
  "replace_calls (BakeAllAssets example_api [Some 1, None, Some 0, Some 3, Some 2, Some 4, Some 1] [])
     = [(1, [], True), (2, [1], False), (4, [2, 1], True), (1, [4, 2, 1], False)]"
  "bake_log (BakeAllAssets example_api [Some 1, None, Some 0, Some 3, Some 2, Some 4, Some 1] [])
     = [SlateNotification [Txt ''Baking all assets in the current level...''],
        LogError [Txt ''Failed to export a Houdini Asset in the scene!''],
        LogError [Txt ''Failed to export Houdini Asset: '', Txt ''HoudiniAssetActor'',
                  Txt '' in the scene!''],
        SlateNotification [Txt ''Baked '', Num 2, Txt '' Houdini assets.''],
        LogMessage [Txt ''Baked all '', Num 2, Txt '' Houdini assets in the current level.'']]"
  by (simp_all add: BakeAllAssets_def bake_all_body_def bake_if_idle_def bake_report_def
      example_api_def Let_def)

lemma example_bake_selection:
  "replace_calls (BakeSelection example_api (Some [Some sky_sphere, Some rock_actor]) [])
     = [(1, [], True)]"
  "bake_log (BakeSelection example_api (Some [Some sky_sphere, Some rock_actor]) [])
     = [SlateNotification [Txt ''Baking selected Houdini Asset Actors in the current level...''],
        SlateNotification [Txt ''Baked '', Num 1, Txt '' Houdini assets.''],
        LogMessage [Txt ''Baked all '', Num 1, Txt '' Houdini assets in the current level.'']]"
  "replace_calls (BakeSelection example_api (Some [Some cube_actor]) []) = []"
  "bake_log (BakeSelection example_api (Some [Some cube_actor]) [])
     = [LogMessage [Txt ''No Houdini Assets selected in the world outliner'']]"
  by (simp_all add: BakeSelection_def bake_selection_body_def bake_if_idle_def bake_report_def
      GetWorldSelection_def Cast_AActor_def Cast_AHoudiniAssetActor_def RemoveAt_def
      example_api_def sky_sphere_def rock_actor_def cube_actor_def Let_def)

theorem bake_counts_successful_replacements_witness:
  "replace_calls (BakeAllAssets example_api [Some 1, None, Some 0, Some 3, Some 2, Some 4, Some 1] [])
     = [(1, [], True), (2, [1], False), (4, [2, 1], True), (1, [4, 2, 1], False)]
   \<and> (\<exists>pre. bake_log (BakeAllAssets example_api
                 [Some 1, None, Some 0, Some 3, Some 2, Some 4, Some 1] [])
         = pre @ [SlateNotification [Txt ''Baked '', Num 2, Txt '' Houdini assets.''],
                  LogMessage [Txt ''Baked all '', Num 2,
                              Txt '' Houdini assets in the current level.'']])
   \<and> IsComponentValid example_api [1] 2 \<and> \<not> IsInstantiatingOrCooking example_api [1] 2
   \<and> replace_calls (BakeSelection example_api (Some [Some sky_sphere, Some rock_actor]) [])
       = [(1, [], True)]
   \<and> (\<exists>pre. bake_log (BakeSelection example_api (Some [Some sky_sphere, Some rock_actor]) [])
         = pre @ [SlateNotification [Txt ''Baked '', Num 1, Txt '' Houdini assets.''],
                  LogMessage [Txt ''Baked all '', Num 1,
                              Txt '' Houdini assets in the current level.'']])
   \<and> bake_log (BakeSelection example_api (Some [Some cube_actor]) [])
       = [LogMessage [Txt ''No Houdini Assets selected in the world outliner'']]"
proof -
  note all = bake_counts_successful_replacements[of example_api
      "[Some 1, None, Some 0, Some 3, Some 2, Some 4, Some 1]" "[]"
      "Some [Some sky_sphere, Some rock_actor]", unfolded Let_def, THEN conjunct1]
  note sel = bake_counts_successful_replacements[of example_api "[]" "[]"
      "Some [Some sky_sphere, Some rock_actor]", unfolded Let_def, THEN conjunct2]
  note none = bake_counts_successful_replacements[of example_api "[]" "[]"
      "Some [Some cube_actor]", unfolded Let_def, THEN conjunct2]
  have a: "\<exists>pre. bake_log (BakeAllAssets example_api
                 [Some 1, None, Some 0, Some 3, Some 2, Some 4, Some 1] [])
         = pre @ [SlateNotification [Txt ''Baked '', Num 2, Txt '' Houdini assets.''],
                  LogMessage [Txt ''Baked all '', Num 2,
                              Txt '' Houdini assets in the current level.'']]"
    using all[THEN conjunct2] unfolding example_bake_all(1) by simp
  have b: "IsComponentValid example_api [1] 2 \<and> \<not> IsInstantiatingOrCooking example_api [1] 2"
    using all[THEN conjunct1] unfolding example_bake_all(1) by simp
  have sel_n: "\<not> fst (GetWorldSelection [] (Some [Some sky_sphere, Some rock_actor]) True) \<le> 0"
    "fst (GetWorldSelection [] (Some [Some cube_actor]) True) \<le> 0"
    by (simp_all add: GetWorldSelection_def Cast_AActor_def Cast_AHoudiniAssetActor_def
        RemoveAt_def sky_sphere_def rock_actor_def cube_actor_def)
  have c: "\<exists>pre. bake_log (BakeSelection example_api (Some [Some sky_sphere, Some rock_actor]) [])
         = pre @ [SlateNotification [Txt ''Baked '', Num 1, Txt '' Houdini assets.''],
                  LogMessage [Txt ''Baked all '', Num 1,
                              Txt '' Houdini assets in the current level.'']]"
    using sel[THEN conjunct2] sel_n(1) unfolding example_bake_selection(1) by simp
  have d: "bake_log (BakeSelection example_api (Some [Some cube_actor]) [])
       = [LogMessage [Txt ''No Houdini Assets selected in the world outliner'']]"
    using none[THEN conjunct2] sel_n(2) by simp
  show ?thesis using a b c d example_bake_all(1) example_bake_selection(1) by simp
qed

subsection \<open>Opening and saving the scene\<close>

text \<open>
  C5. \<open>OpenInHoudini\<close> creates the process only if the engine is initialized and the
  temporary \<open>.hip\<close> file exists after the engine was asked to save it; the save comes
  first in the run and the process is given that file. With the engine not initialized
  nothing happens, and with the file missing after the save the run ends there.
\<close>

theorem OpenInHoudini_saves_before_launch:
  "(let UserTempPath = CreateTempFilename h disk (UserTempDir h) ''HoudiniEngine'' ''.hip'';
        saved = Hapi_SaveHIPFile h disk UserTempPath
    in (\<forall>u p d. CreateProc u p d \<in> set (snd (OpenInHoudini h disk)) \<longrightarrow>
          Engine_IsInitialized h \<and> FileExists h saved UserTempPath \<and> p = UserTempPath \<and>
          (\<exists>mid. snd (OpenInHoudini h disk)
                   = HapiSaveHIPFile UserTempPath # mid @ [CreateProc u p d]))
     \<and> (\<not> Engine_IsInitialized h \<longrightarrow> OpenInHoudini h disk = (disk, []))
     \<and> (Engine_IsInitialized h \<and> \<not> FileExists h saved UserTempPath \<longrightarrow>
          OpenInHoudini h disk = (saved, [HapiSaveHIPFile UserTempPath])))"
  by (auto simp: OpenInHoudini_def Let_def)

lemma example_open:
  "OpenInHoudini example_open_host {} =
     ({''/tmp/HoudiniEngine0001.hip''},
      [HapiSaveHIPFile ''/tmp/HoudiniEngine0001.hip'',
       SlateNotification [Txt ''Opening scene in Houdini...''],
       LogMessage [Txt ''Opened scene in Houdini.''],
       CreateProc ''/opt/hfs/bin//houdini'' ''/tmp/HoudiniEngine0001.hip'' ''/tmp/''])"
  by (simp add: OpenInHoudini_def example_open_host_def Let_def)

theorem OpenInHoudini_saves_before_launch_witness:
  "CreateProc ''/opt/hfs/bin//houdini'' ''/tmp/HoudiniEngine0001.hip'' ''/tmp/''
     \<in> set (snd (OpenInHoudini example_open_host {}))
   \<and> Engine_IsInitialized example_open_host
   \<and> FileExists example_open_host
        (Hapi_SaveHIPFile example_open_host {} ''/tmp/HoudiniEngine0001.hip'')
        ''/tmp/HoudiniEngine0001.hip''
   \<and> (\<exists>mid. snd (OpenInHoudini example_open_host {})
         = HapiSaveHIPFile ''/tmp/HoudiniEngine0001.hip'' # mid @
           [CreateProc ''/opt/hfs/bin//houdini'' ''/tmp/HoudiniEngine0001.hip'' ''/tmp/''])
   \<and> OpenInHoudini (example_open_host\<lparr>Engine_IsInitialized := False\<rparr>) {} = ({}, [])
   \<and> OpenInHoudini (example_open_host\<lparr>Hapi_SaveHIPFile := (\<lambda>disk p. disk)\<rparr>) {}
       = ({}, [HapiSaveHIPFile ''/tmp/HoudiniEngine0001.hip''])"
proof -
  have path: "CreateTempFilename example_open_host {} (UserTempDir example_open_host)
                ''HoudiniEngine'' ''.hip'' = ''/tmp/HoudiniEngine0001.hip''"
    by (simp add: example_open_host_def)
  have launched: "CreateProc ''/opt/hfs/bin//houdini'' ''/tmp/HoudiniEngine0001.hip'' ''/tmp/''
     \<in> set (snd (OpenInHoudini example_open_host {}))"
    by (simp add: example_open)
  have a: "Engine_IsInitialized example_open_host
   \<and> FileExists example_open_host
        (Hapi_SaveHIPFile example_open_host {} ''/tmp/HoudiniEngine0001.hip'')
        ''/tmp/HoudiniEngine0001.hip''
   \<and> ''/tmp/HoudiniEngine0001.hip'' = ''/tmp/HoudiniEngine0001.hip''
   \<and> (\<exists>mid. snd (OpenInHoudini example_open_host {})
         = HapiSaveHIPFile ''/tmp/HoudiniEngine0001.hip'' # mid @
           [CreateProc ''/opt/hfs/bin//houdini'' ''/tmp/HoudiniEngine0001.hip'' ''/tmp/''])"
    by (rule OpenInHoudini_saves_before_launch[of example_open_host "{}", unfolded Let_def path,
          THEN conjunct1, rule_format, OF launched])
  have b: "OpenInHoudini (example_open_host\<lparr>Engine_IsInitialized := False\<rparr>) {} = ({}, [])"
    using OpenInHoudini_saves_before_launch[of "example_open_host\<lparr>Engine_IsInitialized := False\<rparr>" "{}"]
    by (simp add: Let_def example_open_host_def)
  have c: "OpenInHoudini (example_open_host\<lparr>Hapi_SaveHIPFile := (\<lambda>disk p. disk)\<rparr>) {}
       = ({}, [HapiSaveHIPFile ''/tmp/HoudiniEngine0001.hip''])"
    using OpenInHoudini_saves_before_launch[of "example_open_host\<lparr>Hapi_SaveHIPFile := (\<lambda>disk p. disk)\<rparr>" "{}"]
    by (simp add: Let_def example_open_host_def)
  show ?thesis using launched a b c by simp
qed

text \<open>
  C4, as amended. \<open>SaveHIPFile\<close> asks the engine to save only when the desktop platform
  is not null, the engine utilities are initialized, the dialog succeeded and returned a
  file name, and then with the first name; it does nothing when one of the first two
  checks fails, and nothing beyond the dialog when the dialog fails. With the runtime
  settings null, \<open>CleanUpTempFolder\<close> returns after the notification it posts before
  the check, and leaves the world as it is.
\<close>

theorem handlers_stop_at_failed_check:
  "(\<forall>p. HapiSaveHIPFile p \<in> set (SaveHIPFile h) \<longrightarrow>
      (\<exists>dialog. DesktopPlatform h = Some dialog \<and> Utils_IsInitialized h \<and>
         fst (dialog (OSWindowHandle h)) \<and> snd (dialog (OSWindowHandle h)) \<noteq> [] \<and>
         p = snd (dialog (OSWindowHandle h)) ! 0))
   \<and> (DesktopPlatform h = None \<or> \<not> Utils_IsInitialized h \<longrightarrow> SaveHIPFile h = [])
   \<and> (\<forall>dialog. DesktopPlatform h = Some dialog \<and> Utils_IsInitialized h \<and>
        (\<not> fst (dialog (OSWindowHandle h)) \<or> snd (dialog (OSWindowHandle h)) = []) \<longrightarrow>
        SaveHIPFile h = [SaveFileDialog (OSWindowHandle h)])
   \<and> CleanUpTempFolder ah None w
       = Some ([SlateNotification [Txt ''Cleaning up Houdini Engine temporary folder'']], w)"
  by (auto simp: SaveHIPFile_def CleanUpTempFolder_def Let_def split: option.splits)

lemma example_save:
  "SaveHIPFile example_save_host =
     [SaveFileDialog (Some ''HWND''),
      SlateNotification [Txt ''Saving internal Houdini scene...''],
      LogMessage [Txt ''Saved Houdini scene to '', Txt ''C:/scenes/rock.hip''],
      HapiSaveHIPFile ''C:/scenes/rock.hip'']"
  by (simp add: SaveHIPFile_def example_save_host_def Let_def)

theorem handlers_stop_at_failed_check_witness:
  "HapiSaveHIPFile ''C:/scenes/rock.hip'' \<in> set (SaveHIPFile example_save_host)
   \<and> (\<exists>dialog. DesktopPlatform example_save_host = Some dialog \<and>
         Utils_IsInitialized example_save_host \<and>
         fst (dialog (OSWindowHandle example_save_host)) \<and>
         snd (dialog (OSWindowHandle example_save_host)) \<noteq> [] \<and>
         ''C:/scenes/rock.hip'' = snd (dialog (OSWindowHandle example_save_host)) ! 0)
   \<and> SaveHIPFile (example_save_host\<lparr>DesktopPlatform := None\<rparr>) = []
   \<and> SaveHIPFile (example_save_host\<lparr>DesktopPlatform := Some (\<lambda>handle. (False, []))\<rparr>)
       = [SaveFileDialog (Some ''HWND'')]
   \<and> CleanUpTempFolder example_asset_host None [texture, material]
       = Some ([SlateNotification [Txt ''Cleaning up Houdini Engine temporary folder'']],
               [texture, material])"
proof -
  have saved: "HapiSaveHIPFile ''C:/scenes/rock.hip'' \<in> set (SaveHIPFile example_save_host)"
    by (simp add: example_save)
  have a: "\<exists>dialog. DesktopPlatform example_save_host = Some dialog \<and>
         Utils_IsInitialized example_save_host \<and>
         fst (dialog (OSWindowHandle example_save_host)) \<and>
         snd (dialog (OSWindowHandle example_save_host)) \<noteq> [] \<and>
         ''C:/scenes/rock.hip'' = snd (dialog (OSWindowHandle example_save_host)) ! 0"
    by (rule handlers_stop_at_failed_check[of example_save_host, THEN conjunct1, rule_format,
          OF saved])
  have b: "SaveHIPFile (example_save_host\<lparr>DesktopPlatform := None\<rparr>) = []"
    using handlers_stop_at_failed_check[of "example_save_host\<lparr>DesktopPlatform := None\<rparr>"
            example_asset_host "[]"]
    by simp
  have c: "SaveHIPFile (example_save_host\<lparr>DesktopPlatform := Some (\<lambda>handle. (False, []))\<rparr>)
       = [SaveFileDialog (Some ''HWND'')]"
    using handlers_stop_at_failed_check
            [of "example_save_host\<lparr>DesktopPlatform := Some (\<lambda>handle. (False, []))\<rparr>"
                example_asset_host "[]"]
    by (simp add: example_save_host_def)
  have d: "CleanUpTempFolder example_asset_host None [texture, material]
       = Some ([SlateNotification [Txt ''Cleaning up Houdini Engine temporary folder'']],
               [texture, material])"
    by (rule handlers_stop_at_failed_check[of example_save_host example_asset_host
          "[texture, material]", THEN conjunct2, THEN conjunct2, THEN conjunct2])
  show ?thesis using saved a b c d by simp
qed

text \<open>
  C4, as stated, fails. With the runtime settings null, \<open>CleanUpTempFolder\<close> has
  already called the host to post a notification when the check fails. And when
  \<open>BakeAllAssets\<close> meets a null component, it logs the failure, goes on, and posts
  its final notification.
\<close>

theorem failed_check_still_notifies:
  "CleanUpTempFolder example_asset_host None [texture, material]
     = Some ([SlateNotification [Txt ''Cleaning up Houdini Engine temporary folder'']],
             [texture, material])
   \<and> [SlateNotification [Txt ''Cleaning up Houdini Engine temporary folder'']] \<noteq> []
   \<and> bake_log (BakeAllAssets example_api [None] [])
     = [SlateNotification [Txt ''Baking all assets in the current level...''],
        LogError [Txt ''Failed to export a Houdini Asset in the scene!''],
        SlateNotification [Txt ''Baked '', Num 0, Txt '' Houdini assets.''],
        LogMessage [Txt ''Baked all '', Num 0, Txt '' Houdini assets in the current level.'']]"
  by (simp add: CleanUpTempFolder_def BakeAllAssets_def bake_all_body_def bake_report_def)

subsection \<open>Cleaning the temporary folder\<close>










lemma example_assets_differ:
  "material \<noteq> texture" "texture \<noteq> material" "material \<noteq> mesh" "mesh \<noteq> material"
  "texture \<noteq> mesh" "mesh \<noteq> texture"
  "PackageName material \<noteq> PackageName texture" "PackageName texture \<noteq> PackageName material"
  "PackageName material \<noteq> PackageName mesh" "PackageName mesh \<noteq> PackageName material"
  "PackageName texture \<noteq> PackageName mesh" "PackageName mesh \<noteq> PackageName texture"
  by (simp_all add: material_def texture_def mesh_def)

lemma example_scan:
  "assets_to_delete example_asset_host folder [material, texture, mesh] = [material, texture]"
  "assets_to_delete example_asset_host folder [texture, material, mesh] = [material]"
  "assets_to_delete example_asset_host folder [texture, mesh] = [texture]"
  "assets_to_delete example_asset_host folder [mesh] = []"
  by (simp_all add: assets_to_delete_def example_asset_host_def example_assets_differ)




lemma clean_passes_returns:
  assumes shrinks: "\<And>w. assets_to_delete h folder w \<noteq> [] \<Longrightarrow>
        0 < fst (delete_pass h w (assets_to_delete h folder w)) \<Longrightarrow>
        length (GetAssetDataList h (snd (delete_pass h w (assets_to_delete h folder w))) folder)
          < length (GetAssetDataList h w folder)"
  shows "\<exists>r. clean_passes h folder w DeletedCount = Some r"
proof (induction "length (GetAssetDataList h w folder)" arbitrary: w DeletedCount
        rule: less_induct)
  case less
  let ?ds = "assets_to_delete h folder w"
  show ?case
  proof (cases "?ds \<noteq> [] \<and> 0 < fst (delete_pass h w ?ds)")
    case False
    then show ?thesis by (auto simp: clean_passes.simps[of h folder w DeletedCount])
  next
    case True
    then have "length (GetAssetDataList h (snd (delete_pass h w ?ds)) folder)
                 < length (GetAssetDataList h w folder)"
      using shrinks[of w] by simp
    from less[OF this] show ?thesis
      using True by (simp add: clean_passes.simps[of h folder w DeletedCount])
  qed
qed

text \<open>
  C1, as amended. A pass is the last one when its deletion list is empty or when the
  count it reports is not positive, and is followed by another pass only when the
  reported count is positive. If every pass that reports a positive count leaves the
  folder with fewer assets listed than before, the loop is left after finitely many
  passes, from every world and count, and \<open>CleanUpTempFolder\<close> returns.
\<close>

theorem CleanUpTempFolder_terminates:
  assumes "\<And>w. assets_to_delete h folder w \<noteq> [] \<Longrightarrow>
        0 < fst (delete_pass h w (assets_to_delete h folder w)) \<Longrightarrow>
        length (GetAssetDataList h (snd (delete_pass h w (assets_to_delete h folder w))) folder)
          < length (GetAssetDataList h w folder)"
  shows "(\<exists>r. clean_passes h folder w DeletedCount = Some r)
       \<and> (\<exists>r. CleanUpTempFolder h (Some folder) w = Some r)
       \<and> (assets_to_delete h folder w = [] \<longrightarrow>
            clean_passes h folder w DeletedCount = Some (DeletedCount, w))
       \<and> (assets_to_delete h folder w \<noteq> [] \<and>
            fst (delete_pass h w (assets_to_delete h folder w)) \<le> 0 \<longrightarrow>
            clean_passes h folder w DeletedCount
              = Some (DeletedCount, snd (delete_pass h w (assets_to_delete h folder w))))
       \<and> (assets_to_delete h folder w \<noteq> [] \<and>
            0 < fst (delete_pass h w (assets_to_delete h folder w)) \<longrightarrow>
            clean_passes h folder w DeletedCount
              = clean_passes h folder (snd (delete_pass h w (assets_to_delete h folder w)))
                  (DeletedCount + fst (delete_pass h w (assets_to_delete h folder w))))"
proof -
  have returns: "\<And>w n. \<exists>r. clean_passes h folder w n = Some r"
    using clean_passes_returns[of h folder, OF assms] by blast
  obtain r where r: "clean_passes h folder w 0 = Some r" using returns by blast
  have whole: "\<exists>r. CleanUpTempFolder h (Some folder) w = Some r"
    by (simp add: CleanUpTempFolder_def r)
  show ?thesis
    using returns[of w DeletedCount] whole
    by (simp add: clean_passes.simps[of h folder w DeletedCount])
qed

lemma example_host_deletes:
  "DeleteAssets example_asset_host w ds
     = (int (length (filter (\<lambda>d. d \<in> set ds) w)), filter (\<lambda>d. d \<notin> set ds) w)"
  "ForceDeleteObjects example_asset_host w os = (0, w)"
  "GetAssetDataList example_asset_host w folder = w"
  by (simp_all add: example_asset_host_def)

lemma example_delete_pass_shrinks:
  assumes "0 < fst (delete_pass example_asset_host w ds)"
  shows "length (GetAssetDataList example_asset_host
                   (snd (delete_pass example_asset_host w ds)) folder)
           < length (GetAssetDataList example_asset_host w folder)"
proof (cases "filter (\<lambda>d. d \<in> set ds) w = []")
  case True
  then have "fst (delete_pass example_asset_host w ds) = 0"
    by (simp add: delete_pass_def Let_def example_host_deletes)
  then show ?thesis using assms by simp
next
  case False
  then have dp: "delete_pass example_asset_host w ds
                   = (int (length (filter (\<lambda>d. d \<in> set ds) w)), filter (\<lambda>d. d \<notin> set ds) w)"
    by (simp add: delete_pass_def Let_def example_host_deletes)
  have sum: "length (filter (\<lambda>d. d \<in> set ds) w) + length (filter (\<lambda>d. d \<notin> set ds) w)
               = length w"
    using sum_length_filter_compl[of "\<lambda>d. d \<in> set ds" w] by simp
  have "0 < length (filter (\<lambda>d. d \<in> set ds) w)" using False by simp
  then have "length (filter (\<lambda>d. d \<notin> set ds) w) < length w" using sum by arith
  then show ?thesis by (simp add: dp example_host_deletes)
qed

lemma example_delete_pass:
  "delete_pass example_asset_host [texture, material, mesh] [material] = (1, [texture, mesh])"
  "delete_pass example_asset_host [texture, mesh] [texture] = (1, [mesh])"
  by (simp_all add: delete_pass_def example_asset_host_def example_assets_differ)

lemma example_clean_passes:
  "clean_passes example_asset_host [] [texture, material, mesh] 0 = Some (2, [mesh])"
proof -
  have "clean_passes example_asset_host [] [mesh] 2 = Some (2, [mesh])"
    by (simp add: clean_passes.simps[of _ _ "[mesh]"] example_scan)
  then have "clean_passes example_asset_host [] [texture, mesh] 1 = Some (2, [mesh])"
    by (simp add: clean_passes.simps[of _ _ "[texture, mesh]"] example_scan example_delete_pass)
  then show ?thesis
    by (simp add: clean_passes.simps[of _ _ "[texture, material, mesh]"] example_scan
        example_delete_pass)
qed

theorem CleanUpTempFolder_terminates_witness:
  "assets_to_delete example_asset_host [] [texture, material, mesh] = [material]
   \<and> delete_pass example_asset_host [texture, material, mesh] [material] = (1, [texture, mesh])
   \<and> clean_passes example_asset_host [] [texture, material, mesh] 0
       = clean_passes example_asset_host [] [texture, mesh] 1
   \<and> clean_passes example_asset_host [] [mesh] 2 = Some (2, [mesh])
   \<and> clean_passes example_asset_host [] [texture, material, mesh] 0 = Some (2, [mesh])
   \<and> CleanUpTempFolder example_asset_host (Some []) [texture, material, mesh]
       = Some ([SlateNotification [Txt ''Cleaning up Houdini Engine temporary folder''],
                SlateNotification [Txt ''Deleted '', Num 2, Txt '' temporary files.''],
                LogMessage [Txt ''Deleted '', Num 2, Txt '' temporary files.'']], [mesh])"
proof -
  note inst = CleanUpTempFolder_terminates[of example_asset_host "[]",
      OF example_delete_pass_shrinks]
  have a: "clean_passes example_asset_host [] [texture, material, mesh] 0
       = clean_passes example_asset_host [] [texture, mesh] 1"
    using inst[of "[texture, material, mesh]" 0] by (simp add: example_scan example_delete_pass)
  have b: "clean_passes example_asset_host [] [mesh] 2 = Some (2, [mesh])"
    using inst[of "[mesh]" 2] by (simp add: example_scan)
  have c: "CleanUpTempFolder example_asset_host (Some []) [texture, material, mesh]
       = Some ([SlateNotification [Txt ''Cleaning up Houdini Engine temporary folder''],
                SlateNotification [Txt ''Deleted '', Num 2, Txt '' temporary files.''],
                LogMessage [Txt ''Deleted '', Num 2, Txt '' temporary files.'']], [mesh])"
    by (simp add: CleanUpTempFolder_def example_clean_passes)
  show ?thesis using a b c example_clean_passes by (simp add: example_scan example_delete_pass)
qed

text \<open>
  C1, as stated, fails: the loop repeats on the count that the host reports. On a host
  that reports a deletion while the folder goes on listing the asset, every pass finds
  the same asset, reports one deletion, and is followed by another pass: the loop is
  never left.
\<close>

lemma stubborn_pass:
  "assets_to_delete stubborn_host folder [material] = [material]"
  "delete_pass stubborn_host [material] [material] = (1, [material])"
  by (simp_all add: assets_to_delete_def delete_pass_def stubborn_host_def
      example_asset_host_def example_assets_differ)

lemma stubborn_never_returns:
  assumes "clean_passes h folder w n = Some r"
  shows "\<not> (h = stubborn_host \<and> w = [material])"
proof (rule clean_passes.raw_induct
    [where P = "\<lambda>h folder w n r. \<not> (h = stubborn_host \<and> w = [material])", OF _ assms])
  fix f :: "asset_data list asset_host \<Rightarrow> string \<Rightarrow> asset_data list \<Rightarrow> int
              \<Rightarrow> (int \<times> asset_data list) option"
    and h' folder' w' n' r'
  assume IH: "\<And>folder w n b y. f folder w n b = Some y \<Longrightarrow>
                 \<not> (folder = stubborn_host \<and> n = [material])"
    and body: "(if assets_to_delete h' folder' w' = [] then Some (n', w')
      else if 0 < fst (delete_pass h' w' (assets_to_delete h' folder' w'))
           then f h' folder' (snd (delete_pass h' w' (assets_to_delete h' folder' w')))
                  (n' + fst (delete_pass h' w' (assets_to_delete h' folder' w')))
           else Some (n', snd (delete_pass h' w' (assets_to_delete h' folder' w')))) = Some r'"
  show "\<not> (h' = stubborn_host \<and> w' = [material])"
  proof
    assume stuck: "h' = stubborn_host \<and> w' = [material]"
    then have "f stubborn_host folder' [material] (n' + 1) = Some r'"
      using body by (simp add: stubborn_pass)
    from IH[OF this] show False by simp
  qed
qed

theorem reported_deletions_loop_forever:
  "assets_to_delete stubborn_host [] [material] = [material]
   \<and> delete_pass stubborn_host [material] [material] = (1, [material])
   \<and> clean_passes stubborn_host [] [material] 0 = None
   \<and> CleanUpTempFolder stubborn_host (Some []) [material] = None"
proof -
  have "clean_passes stubborn_host [] [material] 0 = None"
  proof (cases "clean_passes stubborn_host [] [material] 0")
    case None
    then show ?thesis .
  next
    case (Some r)
    then show ?thesis using stubborn_never_returns[OF Some] by simp
  qed
  then show ?thesis by (simp add: stubborn_pass CleanUpTempFolder_def)
qed

subsection \<open>Startup and shutdown\<close>

text \<open>
  What each registration function leaves as it is, among the fields that the proofs
  below read.
\<close>

lemma RegisterAssetTypeActions_keeps:
  "GUnrealEd_set (RegisterAssetTypeActions s) = GUnrealEd_set s"
  "GEditor_set (RegisterAssetTypeActions s) = GEditor_set s"
  "RunningCommandlet (RegisterAssetTypeActions s) = RunningCommandlet s"
  "UObjects_initialized (RegisterAssetTypeActions s) = UObjects_initialized s"
  "PlacementMode_available (RegisterAssetTypeActions s) = PlacementMode_available s"
  "ComponentVisualizers (RegisterAssetTypeActions s) = ComponentVisualizers s"
  "CustomClassLayouts (RegisterAssetTypeActions s) = CustomClassLayouts s"
  "ActorFactories (RegisterAssetTypeActions s) = ActorFactories s"
  "CustomRenderers (RegisterAssetTypeActions s) = CustomRenderers s"
  "MenuExtenders (RegisterAssetTypeActions s) = MenuExtenders s"
  "ConsoleCommands (RegisterAssetTypeActions s) = ConsoleCommands s"
  "UndoClients (RegisterAssetTypeActions s) = UndoClients s"
  "PlacementCategories (RegisterAssetTypeActions s) = PlacementCategories s"
  "SplineComponentVisualizer (RegisterAssetTypeActions s) = SplineComponentVisualizer s"
  "HandleComponentVisualizer (RegisterAssetTypeActions s) = HandleComponentVisualizer s"
  "ConsoleStatics (RegisterAssetTypeActions s) = ConsoleStatics s"
  by (simp_all add: RegisterAssetTypeActions_def Let_def RegisterAssetTypeAction_def LoadModuleChecked_def)

lemma RegisterAssetBrokers_keeps:
  "GUnrealEd_set (RegisterAssetBrokers s) = GUnrealEd_set s"
  "GEditor_set (RegisterAssetBrokers s) = GEditor_set s"
  "RunningCommandlet (RegisterAssetBrokers s) = RunningCommandlet s"
  "UObjects_initialized (RegisterAssetBrokers s) = UObjects_initialized s"
  "PlacementMode_available (RegisterAssetBrokers s) = PlacementMode_available s"
  "LoadedModules (RegisterAssetBrokers s) = LoadedModules s"
  "RegisteredAssetTypeActions (RegisterAssetBrokers s) = RegisteredAssetTypeActions s"
  "ComponentVisualizers (RegisterAssetBrokers s) = ComponentVisualizers s"
  "CustomClassLayouts (RegisterAssetBrokers s) = CustomClassLayouts s"
  "ActorFactories (RegisterAssetBrokers s) = ActorFactories s"
  "CustomRenderers (RegisterAssetBrokers s) = CustomRenderers s"
  "MenuExtenders (RegisterAssetBrokers s) = MenuExtenders s"
  "ConsoleCommands (RegisterAssetBrokers s) = ConsoleCommands s"
  "UndoClients (RegisterAssetBrokers s) = UndoClients s"
  "PlacementCategories (RegisterAssetBrokers s) = PlacementCategories s"
  "AssetTypeActions (RegisterAssetBrokers s) = AssetTypeActions s"
  "SplineComponentVisualizer (RegisterAssetBrokers s) = SplineComponentVisualizer s"
  "HandleComponentVisualizer (RegisterAssetBrokers s) = HandleComponentVisualizer s"
  "ConsoleStatics (RegisterAssetBrokers s) = ConsoleStatics s"
  by (simp_all add: RegisterAssetBrokers_def Let_def )

lemma RegisterComponentVisualizers_keeps:
  "GUnrealEd_set (RegisterComponentVisualizers s) = GUnrealEd_set s"
  "GEditor_set (RegisterComponentVisualizers s) = GEditor_set s"
  "RunningCommandlet (RegisterComponentVisualizers s) = RunningCommandlet s"
  "UObjects_initialized (RegisterComponentVisualizers s) = UObjects_initialized s"
  "PlacementMode_available (RegisterComponentVisualizers s) = PlacementMode_available s"
  "LoadedModules (RegisterComponentVisualizers s) = LoadedModules s"
  "RegisteredAssetTypeActions (RegisterComponentVisualizers s) = RegisteredAssetTypeActions s"
  "CustomClassLayouts (RegisterComponentVisualizers s) = CustomClassLayouts s"
  "ActorFactories (RegisterComponentVisualizers s) = ActorFactories s"
  "CustomRenderers (RegisterComponentVisualizers s) = CustomRenderers s"
  "MenuExtenders (RegisterComponentVisualizers s) = MenuExtenders s"
  "ConsoleCommands (RegisterComponentVisualizers s) = ConsoleCommands s"
  "UndoClients (RegisterComponentVisualizers s) = UndoClients s"
  "PlacementCategories (RegisterComponentVisualizers s) = PlacementCategories s"
  "AssetTypeActions (RegisterComponentVisualizers s) = AssetTypeActions s"
  "ConsoleStatics (RegisterComponentVisualizers s) = ConsoleStatics s"
  by (simp_all add: RegisterComponentVisualizers_def Let_def )

lemma RegisterDetails_keeps:
  "GUnrealEd_set (RegisterDetails s) = GUnrealEd_set s"
  "GEditor_set (RegisterDetails s) = GEditor_set s"
  "RunningCommandlet (RegisterDetails s) = RunningCommandlet s"
  "UObjects_initialized (RegisterDetails s) = UObjects_initialized s"
  "PlacementMode_available (RegisterDetails s) = PlacementMode_available s"
  "RegisteredAssetTypeActions (RegisterDetails s) = RegisteredAssetTypeActions s"
  "ComponentVisualizers (RegisterDetails s) = ComponentVisualizers s"
  "ActorFactories (RegisterDetails s) = ActorFactories s"
  "CustomRenderers (RegisterDetails s) = CustomRenderers s"
  "MenuExtenders (RegisterDetails s) = MenuExtenders s"
  "ConsoleCommands (RegisterDetails s) = ConsoleCommands s"
  "UndoClients (RegisterDetails s) = UndoClients s"
  "PlacementCategories (RegisterDetails s) = PlacementCategories s"
  "AssetTypeActions (RegisterDetails s) = AssetTypeActions s"
  "SplineComponentVisualizer (RegisterDetails s) = SplineComponentVisualizer s"
  "HandleComponentVisualizer (RegisterDetails s) = HandleComponentVisualizer s"
  "ConsoleStatics (RegisterDetails s) = ConsoleStatics s"
  by (simp_all add: RegisterDetails_def Let_def LoadModuleChecked_def)

lemma RegisterActorFactories_keeps:
  "GUnrealEd_set (RegisterActorFactories s) = GUnrealEd_set s"
  "GEditor_set (RegisterActorFactories s) = GEditor_set s"
  "RunningCommandlet (RegisterActorFactories s) = RunningCommandlet s"
  "UObjects_initialized (RegisterActorFactories s) = UObjects_initialized s"
  "PlacementMode_available (RegisterActorFactories s) = PlacementMode_available s"
  "LoadedModules (RegisterActorFactories s) = LoadedModules s"
  "RegisteredAssetTypeActions (RegisterActorFactories s) = RegisteredAssetTypeActions s"
  "ComponentVisualizers (RegisterActorFactories s) = ComponentVisualizers s"
  "CustomClassLayouts (RegisterActorFactories s) = CustomClassLayouts s"
  "CustomRenderers (RegisterActorFactories s) = CustomRenderers s"
  "MenuExtenders (RegisterActorFactories s) = MenuExtenders s"
  "ConsoleCommands (RegisterActorFactories s) = ConsoleCommands s"
  "UndoClients (RegisterActorFactories s) = UndoClients s"
  "PlacementCategories (RegisterActorFactories s) = PlacementCategories s"
  "AssetTypeActions (RegisterActorFactories s) = AssetTypeActions s"
  "SplineComponentVisualizer (RegisterActorFactories s) = SplineComponentVisualizer s"
  "HandleComponentVisualizer (RegisterActorFactories s) = HandleComponentVisualizer s"
  "ConsoleStatics (RegisterActorFactories s) = ConsoleStatics s"
  by (simp_all add: RegisterActorFactories_def Let_def )

lemma RegisterStyleSet_keeps:
  "GUnrealEd_set (RegisterStyleSet s) = GUnrealEd_set s"
  "GEditor_set (RegisterStyleSet s) = GEditor_set s"
  "RunningCommandlet (RegisterStyleSet s) = RunningCommandlet s"
  "UObjects_initialized (RegisterStyleSet s) = UObjects_initialized s"
  "PlacementMode_available (RegisterStyleSet s) = PlacementMode_available s"
  "LoadedModules (RegisterStyleSet s) = LoadedModules s"
  "RegisteredAssetTypeActions (RegisterStyleSet s) = RegisteredAssetTypeActions s"
  "ComponentVisualizers (RegisterStyleSet s) = ComponentVisualizers s"
  "CustomClassLayouts (RegisterStyleSet s) = CustomClassLayouts s"
  "ActorFactories (RegisterStyleSet s) = ActorFactories s"
  "CustomRenderers (RegisterStyleSet s) = CustomRenderers s"
  "MenuExtenders (RegisterStyleSet s) = MenuExtenders s"
  "ConsoleCommands (RegisterStyleSet s) = ConsoleCommands s"
  "UndoClients (RegisterStyleSet s) = UndoClients s"
  "PlacementCategories (RegisterStyleSet s) = PlacementCategories s"
  "AssetTypeActions (RegisterStyleSet s) = AssetTypeActions s"
  "SplineComponentVisualizer (RegisterStyleSet s) = SplineComponentVisualizer s"
  "HandleComponentVisualizer (RegisterStyleSet s) = HandleComponentVisualizer s"
  "ConsoleStatics (RegisterStyleSet s) = ConsoleStatics s"
  by (simp_all add: RegisterStyleSet_def Let_def )

lemma RegisterThumbnails_keeps:
  "GUnrealEd_set (RegisterThumbnails s) = GUnrealEd_set s"
  "GEditor_set (RegisterThumbnails s) = GEditor_set s"
  "RunningCommandlet (RegisterThumbnails s) = RunningCommandlet s"
  "UObjects_initialized (RegisterThumbnails s) = UObjects_initialized s"
  "PlacementMode_available (RegisterThumbnails s) = PlacementMode_available s"
  "LoadedModules (RegisterThumbnails s) = LoadedModules s"
  "RegisteredAssetTypeActions (RegisterThumbnails s) = RegisteredAssetTypeActions s"
  "ComponentVisualizers (RegisterThumbnails s) = ComponentVisualizers s"
  "CustomClassLayouts (RegisterThumbnails s) = CustomClassLayouts s"
  "ActorFactories (RegisterThumbnails s) = ActorFactories s"
  "MenuExtenders (RegisterThumbnails s) = MenuExtenders s"
  "ConsoleCommands (RegisterThumbnails s) = ConsoleCommands s"
  "UndoClients (RegisterThumbnails s) = UndoClients s"
  "PlacementCategories (RegisterThumbnails s) = PlacementCategories s"
  "AssetTypeActions (RegisterThumbnails s) = AssetTypeActions s"
  "SplineComponentVisualizer (RegisterThumbnails s) = SplineComponentVisualizer s"
  "HandleComponentVisualizer (RegisterThumbnails s) = HandleComponentVisualizer s"
  "ConsoleStatics (RegisterThumbnails s) = ConsoleStatics s"
  by (simp_all add: RegisterThumbnails_def Let_def )

lemma BindMenuCommands_keeps:
  "GUnrealEd_set (BindMenuCommands s) = GUnrealEd_set s"
  "GEditor_set (BindMenuCommands s) = GEditor_set s"
  "RunningCommandlet (BindMenuCommands s) = RunningCommandlet s"
  "UObjects_initialized (BindMenuCommands s) = UObjects_initialized s"
  "PlacementMode_available (BindMenuCommands s) = PlacementMode_available s"
  "RegisteredAssetTypeActions (BindMenuCommands s) = RegisteredAssetTypeActions s"
  "ComponentVisualizers (BindMenuCommands s) = ComponentVisualizers s"
  "CustomClassLayouts (BindMenuCommands s) = CustomClassLayouts s"
  "ActorFactories (BindMenuCommands s) = ActorFactories s"
  "CustomRenderers (BindMenuCommands s) = CustomRenderers s"
  "MenuExtenders (BindMenuCommands s) = MenuExtenders s"
  "ConsoleCommands (BindMenuCommands s) = ConsoleCommands s"
  "UndoClients (BindMenuCommands s) = UndoClients s"
  "PlacementCategories (BindMenuCommands s) = PlacementCategories s"
  "AssetTypeActions (BindMenuCommands s) = AssetTypeActions s"
  "SplineComponentVisualizer (BindMenuCommands s) = SplineComponentVisualizer s"
  "HandleComponentVisualizer (BindMenuCommands s) = HandleComponentVisualizer s"
  "ConsoleStatics (BindMenuCommands s) = ConsoleStatics s"
  by (simp_all add: BindMenuCommands_def Let_def LoadModuleChecked_def)

lemma ExtendMenu_keeps:
  "GUnrealEd_set (ExtendMenu s) = GUnrealEd_set s"
  "GEditor_set (ExtendMenu s) = GEditor_set s"
  "RunningCommandlet (ExtendMenu s) = RunningCommandlet s"
  "UObjects_initialized (ExtendMenu s) = UObjects_initialized s"
  "PlacementMode_available (ExtendMenu s) = PlacementMode_available s"
  "RegisteredAssetTypeActions (ExtendMenu s) = RegisteredAssetTypeActions s"
  "ComponentVisualizers (ExtendMenu s) = ComponentVisualizers s"
  "CustomClassLayouts (ExtendMenu s) = CustomClassLayouts s"
  "ActorFactories (ExtendMenu s) = ActorFactories s"
  "CustomRenderers (ExtendMenu s) = CustomRenderers s"
  "ConsoleCommands (ExtendMenu s) = ConsoleCommands s"
  "UndoClients (ExtendMenu s) = UndoClients s"
  "PlacementCategories (ExtendMenu s) = PlacementCategories s"
  "AssetTypeActions (ExtendMenu s) = AssetTypeActions s"
  "SplineComponentVisualizer (ExtendMenu s) = SplineComponentVisualizer s"
  "HandleComponentVisualizer (ExtendMenu s) = HandleComponentVisualizer s"
  "ConsoleStatics (ExtendMenu s) = ConsoleStatics s"
  by (simp_all add: ExtendMenu_def Let_def LoadModuleChecked_def BindMenuCommands_keeps)

lemma RegisterConsoleCommands_keeps:
  "GUnrealEd_set (RegisterConsoleCommands s) = GUnrealEd_set s"
  "GEditor_set (RegisterConsoleCommands s) = GEditor_set s"
  "RunningCommandlet (RegisterConsoleCommands s) = RunningCommandlet s"
  "UObjects_initialized (RegisterConsoleCommands s) = UObjects_initialized s"
  "PlacementMode_available (RegisterConsoleCommands s) = PlacementMode_available s"
  "LoadedModules (RegisterConsoleCommands s) = LoadedModules s"
  "RegisteredAssetTypeActions (RegisterConsoleCommands s) = RegisteredAssetTypeActions s"
  "ComponentVisualizers (RegisterConsoleCommands s) = ComponentVisualizers s"
  "CustomClassLayouts (RegisterConsoleCommands s) = CustomClassLayouts s"
  "ActorFactories (RegisterConsoleCommands s) = ActorFactories s"
  "CustomRenderers (RegisterConsoleCommands s) = CustomRenderers s"
  "MenuExtenders (RegisterConsoleCommands s) = MenuExtenders s"
  "UndoClients (RegisterConsoleCommands s) = UndoClients s"
  "PlacementCategories (RegisterConsoleCommands s) = PlacementCategories s"
  "AssetTypeActions (RegisterConsoleCommands s) = AssetTypeActions s"
  "SplineComponentVisualizer (RegisterConsoleCommands s) = SplineComponentVisualizer s"
  "HandleComponentVisualizer (RegisterConsoleCommands s) = HandleComponentVisualizer s"
  by (simp_all add: RegisterConsoleCommands_def Let_def )

lemma RegisterForUndo_keeps:
  "GUnrealEd_set (RegisterForUndo s) = GUnrealEd_set s"
  "GEditor_set (RegisterForUndo s) = GEditor_set s"
  "RunningCommandlet (RegisterForUndo s) = RunningCommandlet s"
  "UObjects_initialized (RegisterForUndo s) = UObjects_initialized s"
  "PlacementMode_available (RegisterForUndo s) = PlacementMode_available s"
  "LoadedModules (RegisterForUndo s) = LoadedModules s"
  "RegisteredAssetTypeActions (RegisterForUndo s) = RegisteredAssetTypeActions s"
  "ComponentVisualizers (RegisterForUndo s) = ComponentVisualizers s"
  "CustomClassLayouts (RegisterForUndo s) = CustomClassLayouts s"
  "ActorFactories (RegisterForUndo s) = ActorFactories s"
  "CustomRenderers (RegisterForUndo s) = CustomRenderers s"
  "MenuExtenders (RegisterForUndo s) = MenuExtenders s"
  "ConsoleCommands (RegisterForUndo s) = ConsoleCommands s"
  "PlacementCategories (RegisterForUndo s) = PlacementCategories s"
  "AssetTypeActions (RegisterForUndo s) = AssetTypeActions s"
  "SplineComponentVisualizer (RegisterForUndo s) = SplineComponentVisualizer s"
  "HandleComponentVisualizer (RegisterForUndo s) = HandleComponentVisualizer s"
  "ConsoleStatics (RegisterForUndo s) = ConsoleStatics s"
  by (simp_all add: RegisterForUndo_def Let_def )

lemma RegisterModes_keeps:
  "GUnrealEd_set (RegisterModes s) = GUnrealEd_set s"
  "GEditor_set (RegisterModes s) = GEditor_set s"
  "RunningCommandlet (RegisterModes s) = RunningCommandlet s"
  "UObjects_initialized (RegisterModes s) = UObjects_initialized s"
  "PlacementMode_available (RegisterModes s) = PlacementMode_available s"
  "LoadedModules (RegisterModes s) = LoadedModules s"
  "RegisteredAssetTypeActions (RegisterModes s) = RegisteredAssetTypeActions s"
  "ComponentVisualizers (RegisterModes s) = ComponentVisualizers s"
  "CustomClassLayouts (RegisterModes s) = CustomClassLayouts s"
  "ActorFactories (RegisterModes s) = ActorFactories s"
  "CustomRenderers (RegisterModes s) = CustomRenderers s"
  "MenuExtenders (RegisterModes s) = MenuExtenders s"
  "ConsoleCommands (RegisterModes s) = ConsoleCommands s"
  "UndoClients (RegisterModes s) = UndoClients s"
  "PlacementCategories (RegisterModes s) = PlacementCategories s"
  "AssetTypeActions (RegisterModes s) = AssetTypeActions s"
  "SplineComponentVisualizer (RegisterModes s) = SplineComponentVisualizer s"
  "HandleComponentVisualizer (RegisterModes s) = HandleComponentVisualizer s"
  "ConsoleStatics (RegisterModes s) = ConsoleStatics s"
  by (simp_all add: RegisterModes_def Let_def )

lemma RegisterPlacementModeExtensions_keeps:
  "GUnrealEd_set (RegisterPlacementModeExtensions s) = GUnrealEd_set s"
  "GEditor_set (RegisterPlacementModeExtensions s) = GEditor_set s"
  "RunningCommandlet (RegisterPlacementModeExtensions s) = RunningCommandlet s"
  "UObjects_initialized (RegisterPlacementModeExtensions s) = UObjects_initialized s"
  "PlacementMode_available (RegisterPlacementModeExtensions s) = PlacementMode_available s"
  "LoadedModules (RegisterPlacementModeExtensions s) = LoadedModules s"
  "RegisteredAssetTypeActions (RegisterPlacementModeExtensions s) = RegisteredAssetTypeActions s"
  "ComponentVisualizers (RegisterPlacementModeExtensions s) = ComponentVisualizers s"
  "CustomClassLayouts (RegisterPlacementModeExtensions s) = CustomClassLayouts s"
  "ActorFactories (RegisterPlacementModeExtensions s) = ActorFactories s"
  "CustomRenderers (RegisterPlacementModeExtensions s) = CustomRenderers s"
  "MenuExtenders (RegisterPlacementModeExtensions s) = MenuExtenders s"
  "ConsoleCommands (RegisterPlacementModeExtensions s) = ConsoleCommands s"
  "UndoClients (RegisterPlacementModeExtensions s) = UndoClients s"
  "AssetTypeActions (RegisterPlacementModeExtensions s) = AssetTypeActions s"
  "SplineComponentVisualizer (RegisterPlacementModeExtensions s) = SplineComponentVisualizer s"
  "HandleComponentVisualizer (RegisterPlacementModeExtensions s) = HandleComponentVisualizer s"
  "ConsoleStatics (RegisterPlacementModeExtensions s) = ConsoleStatics s"
  by (simp_all add: RegisterPlacementModeExtensions_def Let_def )

lemma UnregisterAssetTypeActions_keeps:
  "GUnrealEd_set (UnregisterAssetTypeActions s) = GUnrealEd_set s"
  "GEditor_set (UnregisterAssetTypeActions s) = GEditor_set s"
  "RunningCommandlet (UnregisterAssetTypeActions s) = RunningCommandlet s"
  "UObjects_initialized (UnregisterAssetTypeActions s) = UObjects_initialized s"
  "PlacementMode_available (UnregisterAssetTypeActions s) = PlacementMode_available s"
  "LoadedModules (UnregisterAssetTypeActions s) = LoadedModules s"
  "ComponentVisualizers (UnregisterAssetTypeActions s) = ComponentVisualizers s"
  "CustomClassLayouts (UnregisterAssetTypeActions s) = CustomClassLayouts s"
  "ActorFactories (UnregisterAssetTypeActions s) = ActorFactories s"
  "CustomRenderers (UnregisterAssetTypeActions s) = CustomRenderers s"
  "MenuExtenders (UnregisterAssetTypeActions s) = MenuExtenders s"
  "ConsoleCommands (UnregisterAssetTypeActions s) = ConsoleCommands s"
  "UndoClients (UnregisterAssetTypeActions s) = UndoClients s"
  "PlacementCategories (UnregisterAssetTypeActions s) = PlacementCategories s"
  "SplineComponentVisualizer (UnregisterAssetTypeActions s) = SplineComponentVisualizer s"
  "HandleComponentVisualizer (UnregisterAssetTypeActions s) = HandleComponentVisualizer s"
  "ConsoleStatics (UnregisterAssetTypeActions s) = ConsoleStatics s"
  by (simp_all add: UnregisterAssetTypeActions_def Let_def )

lemma UnregisterDetails_keeps:
  "GUnrealEd_set (UnregisterDetails s) = GUnrealEd_set s"
  "GEditor_set (UnregisterDetails s) = GEditor_set s"
  "RunningCommandlet (UnregisterDetails s) = RunningCommandlet s"
  "UObjects_initialized (UnregisterDetails s) = UObjects_initialized s"
  "PlacementMode_available (UnregisterDetails s) = PlacementMode_available s"
  "LoadedModules (UnregisterDetails s) = LoadedModules s"
  "RegisteredAssetTypeActions (UnregisterDetails s) = RegisteredAssetTypeActions s"
  "ComponentVisualizers (UnregisterDetails s) = ComponentVisualizers s"
  "ActorFactories (UnregisterDetails s) = ActorFactories s"
  "CustomRenderers (UnregisterDetails s) = CustomRenderers s"
  "MenuExtenders (UnregisterDetails s) = MenuExtenders s"
  "ConsoleCommands (UnregisterDetails s) = ConsoleCommands s"
  "UndoClients (UnregisterDetails s) = UndoClients s"
  "PlacementCategories (UnregisterDetails s) = PlacementCategories s"
  "AssetTypeActions (UnregisterDetails s) = AssetTypeActions s"
  "SplineComponentVisualizer (UnregisterDetails s) = SplineComponentVisualizer s"
  "HandleComponentVisualizer (UnregisterDetails s) = HandleComponentVisualizer s"
  "ConsoleStatics (UnregisterDetails s) = ConsoleStatics s"
  by (simp_all add: UnregisterDetails_def Let_def )

lemma UnregisterThumbnails_keeps:
  "GUnrealEd_set (UnregisterThumbnails s) = GUnrealEd_set s"
  "GEditor_set (UnregisterThumbnails s) = GEditor_set s"
  "RunningCommandlet (UnregisterThumbnails s) = RunningCommandlet s"
  "UObjects_initialized (UnregisterThumbnails s) = UObjects_initialized s"
  "PlacementMode_available (UnregisterThumbnails s) = PlacementMode_available s"
  "LoadedModules (UnregisterThumbnails s) = LoadedModules s"
  "RegisteredAssetTypeActions (UnregisterThumbnails s) = RegisteredAssetTypeActions s"
  "ComponentVisualizers (UnregisterThumbnails s) = ComponentVisualizers s"
  "CustomClassLayouts (UnregisterThumbnails s) = CustomClassLayouts s"
  "ActorFactories (UnregisterThumbnails s) = ActorFactories s"
  "MenuExtenders (UnregisterThumbnails s) = MenuExtenders s"
  "ConsoleCommands (UnregisterThumbnails s) = ConsoleCommands s"
  "UndoClients (UnregisterThumbnails s) = UndoClients s"
  "PlacementCategories (UnregisterThumbnails s) = PlacementCategories s"
  "AssetTypeActions (UnregisterThumbnails s) = AssetTypeActions s"
  "SplineComponentVisualizer (UnregisterThumbnails s) = SplineComponentVisualizer s"
  "HandleComponentVisualizer (UnregisterThumbnails s) = HandleComponentVisualizer s"
  "ConsoleStatics (UnregisterThumbnails s) = ConsoleStatics s"
  by (simp_all add: UnregisterThumbnails_def Let_def )

lemma UnregisterComponentVisualizers_keeps:
  "GUnrealEd_set (UnregisterComponentVisualizers s) = GUnrealEd_set s"
  "GEditor_set (UnregisterComponentVisualizers s) = GEditor_set s"
  "RunningCommandlet (UnregisterComponentVisualizers s) = RunningCommandlet s"
  "UObjects_initialized (UnregisterComponentVisualizers s) = UObjects_initialized s"
  "PlacementMode_available (UnregisterComponentVisualizers s) = PlacementMode_available s"
  "LoadedModules (UnregisterComponentVisualizers s) = LoadedModules s"
  "RegisteredAssetTypeActions (UnregisterComponentVisualizers s) = RegisteredAssetTypeActions s"
  "CustomClassLayouts (UnregisterComponentVisualizers s) = CustomClassLayouts s"
  "ActorFactories (UnregisterComponentVisualizers s) = ActorFactories s"
  "CustomRenderers (UnregisterComponentVisualizers s) = CustomRenderers s"
  "MenuExtenders (UnregisterComponentVisualizers s) = MenuExtenders s"
  "ConsoleCommands (UnregisterComponentVisualizers s) = ConsoleCommands s"
  "UndoClients (UnregisterComponentVisualizers s) = UndoClients s"
  "PlacementCategories (UnregisterComponentVisualizers s) = PlacementCategories s"
  "AssetTypeActions (UnregisterComponentVisualizers s) = AssetTypeActions s"
  "SplineComponentVisualizer (UnregisterComponentVisualizers s) = SplineComponentVisualizer s"
  "HandleComponentVisualizer (UnregisterComponentVisualizers s) = HandleComponentVisualizer s"
  "ConsoleStatics (UnregisterComponentVisualizers s) = ConsoleStatics s"
  by (simp_all add: UnregisterComponentVisualizers_def Let_def )

lemma UnregisterForUndo_keeps:
  "GUnrealEd_set (UnregisterForUndo s) = GUnrealEd_set s"
  "GEditor_set (UnregisterForUndo s) = GEditor_set s"
  "RunningCommandlet (UnregisterForUndo s) = RunningCommandlet s"
  "UObjects_initialized (UnregisterForUndo s) = UObjects_initialized s"
  "PlacementMode_available (UnregisterForUndo s) = PlacementMode_available s"
  "LoadedModules (UnregisterForUndo s) = LoadedModules s"
  "RegisteredAssetTypeActions (UnregisterForUndo s) = RegisteredAssetTypeActions s"
  "ComponentVisualizers (UnregisterForUndo s) = ComponentVisualizers s"
  "CustomClassLayouts (UnregisterForUndo s) = CustomClassLayouts s"
  "ActorFactories (UnregisterForUndo s) = ActorFactories s"
  "CustomRenderers (UnregisterForUndo s) = CustomRenderers s"
  "MenuExtenders (UnregisterForUndo s) = MenuExtenders s"
  "ConsoleCommands (UnregisterForUndo s) = ConsoleCommands s"
  "PlacementCategories (UnregisterForUndo s) = PlacementCategories s"
  "AssetTypeActions (UnregisterForUndo s) = AssetTypeActions s"
  "SplineComponentVisualizer (UnregisterForUndo s) = SplineComponentVisualizer s"
  "HandleComponentVisualizer (UnregisterForUndo s) = HandleComponentVisualizer s"
  "ConsoleStatics (UnregisterForUndo s) = ConsoleStatics s"
  by (simp_all add: UnregisterForUndo_def Let_def )

lemma UnregisterModes_keeps:
  "GUnrealEd_set (UnregisterModes s) = GUnrealEd_set s"
  "GEditor_set (UnregisterModes s) = GEditor_set s"
  "RunningCommandlet (UnregisterModes s) = RunningCommandlet s"
  "UObjects_initialized (UnregisterModes s) = UObjects_initialized s"
  "PlacementMode_available (UnregisterModes s) = PlacementMode_available s"
  "LoadedModules (UnregisterModes s) = LoadedModules s"
  "RegisteredAssetTypeActions (UnregisterModes s) = RegisteredAssetTypeActions s"
  "ComponentVisualizers (UnregisterModes s) = ComponentVisualizers s"
  "CustomClassLayouts (UnregisterModes s) = CustomClassLayouts s"
  "ActorFactories (UnregisterModes s) = ActorFactories s"
  "CustomRenderers (UnregisterModes s) = CustomRenderers s"
  "MenuExtenders (UnregisterModes s) = MenuExtenders s"
  "ConsoleCommands (UnregisterModes s) = ConsoleCommands s"
  "UndoClients (UnregisterModes s) = UndoClients s"
  "PlacementCategories (UnregisterModes s) = PlacementCategories s"
  "AssetTypeActions (UnregisterModes s) = AssetTypeActions s"
  "SplineComponentVisualizer (UnregisterModes s) = SplineComponentVisualizer s"
  "HandleComponentVisualizer (UnregisterModes s) = HandleComponentVisualizer s"
  "ConsoleStatics (UnregisterModes s) = ConsoleStatics s"
  by (simp_all add: UnregisterModes_def Let_def )

lemma UnregisterPlacementModeExtensions_keeps:
  "GUnrealEd_set (UnregisterPlacementModeExtensions s) = GUnrealEd_set s"
  "GEditor_set (UnregisterPlacementModeExtensions s) = GEditor_set s"
  "RunningCommandlet (UnregisterPlacementModeExtensions s) = RunningCommandlet s"
  "UObjects_initialized (UnregisterPlacementModeExtensions s) = UObjects_initialized s"
  "PlacementMode_available (UnregisterPlacementModeExtensions s) = PlacementMode_available s"
  "LoadedModules (UnregisterPlacementModeExtensions s) = LoadedModules s"
  "RegisteredAssetTypeActions (UnregisterPlacementModeExtensions s) = RegisteredAssetTypeActions s"
  "ComponentVisualizers (UnregisterPlacementModeExtensions s) = ComponentVisualizers s"
  "CustomClassLayouts (UnregisterPlacementModeExtensions s) = CustomClassLayouts s"
  "ActorFactories (UnregisterPlacementModeExtensions s) = ActorFactories s"
  "CustomRenderers (UnregisterPlacementModeExtensions s) = CustomRenderers s"
  "MenuExtenders (UnregisterPlacementModeExtensions s) = MenuExtenders s"
  "ConsoleCommands (UnregisterPlacementModeExtensions s) = ConsoleCommands s"
  "UndoClients (UnregisterPlacementModeExtensions s) = UndoClients s"
  "AssetTypeActions (UnregisterPlacementModeExtensions s) = AssetTypeActions s"
  "SplineComponentVisualizer (UnregisterPlacementModeExtensions s) = SplineComponentVisualizer s"
  "HandleComponentVisualizer (UnregisterPlacementModeExtensions s) = HandleComponentVisualizer s"
  "ConsoleStatics (UnregisterPlacementModeExtensions s) = ConsoleStatics s"
  by (simp_all add: UnregisterPlacementModeExtensions_def Let_def )

lemmas registration_keeps =
  RegisterAssetTypeActions_keeps
  RegisterAssetBrokers_keeps
  RegisterComponentVisualizers_keeps
  RegisterDetails_keeps
  RegisterActorFactories_keeps
  RegisterStyleSet_keeps
  RegisterThumbnails_keeps
  BindMenuCommands_keeps
  ExtendMenu_keeps
  RegisterConsoleCommands_keeps
  RegisterForUndo_keeps
  RegisterModes_keeps
  RegisterPlacementModeExtensions_keeps
  UnregisterAssetTypeActions_keeps
  UnregisterDetails_keeps
  UnregisterThumbnails_keeps
  UnregisterComponentVisualizers_keeps
  UnregisterForUndo_keeps
  UnregisterModes_keeps
  UnregisterPlacementModeExtensions_keeps

text \<open>What the registration functions change, as far as shutdown depends on it.\<close>

lemma RegisterAssetTypeActions_changes:
  "LoadedModules (RegisterAssetTypeActions s) = insert ''AssetTools'' (LoadedModules s)"
  "RegisteredAssetTypeActions (RegisterAssetTypeActions s)
     = insert ''FHoudiniAssetTypeActions'' (RegisteredAssetTypeActions s)"
  "AssetTypeActions (RegisterAssetTypeActions s)
     = AssetTypeActions s @ [''FHoudiniAssetTypeActions'']"
  by (simp_all add: RegisterAssetTypeActions_def RegisterAssetTypeAction_def
      LoadModuleChecked_def)

lemma RegisterComponentVisualizers_changes:
  "GUnrealEd_set s \<Longrightarrow> \<exists>v. SplineComponentVisualizer (RegisterComponentVisualizers s) = Some v"
  "GUnrealEd_set s \<Longrightarrow> \<exists>v. HandleComponentVisualizer (RegisterComponentVisualizers s) = Some v"
  "\<not> GUnrealEd_set s \<Longrightarrow>
     ComponentVisualizers (RegisterComponentVisualizers s) = ComponentVisualizers s"
  by (auto simp: RegisterComponentVisualizers_def Let_def)

lemma RegisterDetails_changes:
  "LoadedModules (RegisterDetails s) = insert ''PropertyEditor'' (LoadedModules s)"
  by (simp add: RegisterDetails_def LoadModuleChecked_def Let_def)

lemma ExtendMenu_changes:
  "LoadedModules s \<subseteq> LoadedModules (ExtendMenu s)"
  by (auto simp: ExtendMenu_def BindMenuCommands_def LoadModuleChecked_def Let_def)

lemma RegisterForUndo_changes:
  "\<not> GUnrealEd_set s \<Longrightarrow> UndoClients (RegisterForUndo s) = UndoClients s"
  by (simp add: RegisterForUndo_def)

lemma foldl_remove_keeps_out: "x \<notin> S \<Longrightarrow> x \<notin> foldl (\<lambda>reg a. reg - {a}) S xs"
  by (induction xs arbitrary: S) simp_all

lemma foldl_remove_all: "x \<in> set xs \<Longrightarrow> x \<notin> foldl (\<lambda>reg a. reg - {a}) S xs"
proof (induction xs arbitrary: S)
  case Nil
  then show ?case by simp
next
  case (Cons a xs)
  show ?case
  proof (cases "x = a")
    case True
    then show ?thesis using foldl_remove_keeps_out[of x "S - {a}" xs] by simp
  next
    case False
    then show ?thesis using Cons by simp
  qed
qed

text \<open>The state that startup leaves, as far as shutdown depends on it.\<close>

lemma StartupModule_environment:
  "GUnrealEd_set (StartupModule m s) = GUnrealEd_set s"
  "UObjects_initialized (StartupModule m s) = UObjects_initialized s"
  "PlacementMode_available (StartupModule m s) = PlacementMode_available s"
  by (simp_all add: StartupModule_def Let_def registration_keeps)

lemma StartupModule_modules:
  "''AssetTools'' \<in> LoadedModules (StartupModule m s)"
  "''PropertyEditor'' \<in> LoadedModules (StartupModule m s)"
  using ExtendMenu_changes[of "RegisterThumbnails (RegisterStyleSet (RegisterActorFactories
          (RegisterDetails (RegisterComponentVisualizers (RegisterAssetBrokers
          (RegisterAssetTypeActions s))))))"]
  by (auto simp: StartupModule_def Let_def registration_keeps RegisterAssetTypeActions_changes
      RegisterDetails_changes)

lemma StartupModule_actions:
  "''FHoudiniAssetTypeActions'' \<in> set (AssetTypeActions (StartupModule m s))"
  "''FHoudiniAssetTypeActions'' \<in> RegisteredAssetTypeActions (StartupModule m s)"
  by (simp_all add: StartupModule_def Let_def registration_keeps
      RegisterAssetTypeActions_changes)

lemma StartupModule_visualizers:
  "GUnrealEd_set s \<Longrightarrow> \<exists>v. SplineComponentVisualizer (StartupModule m s) = Some v"
  "GUnrealEd_set s \<Longrightarrow> \<exists>v. HandleComponentVisualizer (StartupModule m s) = Some v"
  "\<not> GUnrealEd_set s \<Longrightarrow> ComponentVisualizers (StartupModule m s) = ComponentVisualizers s"
  "\<not> GUnrealEd_set s \<Longrightarrow> UndoClients (StartupModule m s) = UndoClients s"
  by (simp_all add: StartupModule_def Let_def registration_keeps
      RegisterComponentVisualizers_changes RegisterForUndo_changes)

text \<open>What shutdown leaves in the six registries it deals with.\<close>

lemma ShutdownModule_actions:
  "''AssetTools'' \<in> LoadedModules t \<Longrightarrow> a \<in> set (AssetTypeActions t) \<Longrightarrow>
   a \<notin> RegisteredAssetTypeActions (ShutdownModule m t)"
  by (simp add: ShutdownModule_def Let_def registration_keeps UnregisterAssetTypeActions_def
      foldl_remove_all)

lemma ShutdownModule_details:
  "''PropertyEditor'' \<in> LoadedModules t \<Longrightarrow>
   CustomClassLayouts (ShutdownModule m t) ''HoudiniAssetComponent'' = None \<and>
   CustomClassLayouts (ShutdownModule m t) ''HoudiniRuntimeSettings'' = None"
  by (simp add: ShutdownModule_def Let_def registration_keeps UnregisterDetails_def)

lemma ShutdownModule_thumbnails:
  "UObjects_initialized t \<Longrightarrow> CustomRenderers (ShutdownModule m t) ''HoudiniAsset'' = None"
  by (simp add: ShutdownModule_def Let_def registration_keeps UnregisterThumbnails_def)

lemma ShutdownModule_visualizers:
  "GUnrealEd_set t \<Longrightarrow> \<exists>v. SplineComponentVisualizer t = Some v \<Longrightarrow>
   \<exists>v. HandleComponentVisualizer t = Some v \<Longrightarrow>
   ComponentVisualizers (ShutdownModule m t) ''HoudiniSplineComponent'' = None \<and>
   ComponentVisualizers (ShutdownModule m t) ''HoudiniHandleComponent'' = None"
  "\<not> GUnrealEd_set t \<Longrightarrow> ComponentVisualizers (ShutdownModule m t) = ComponentVisualizers t"
  by (simp_all add: ShutdownModule_def Let_def registration_keeps
      UnregisterComponentVisualizers_def)

lemma ShutdownModule_undo:
  "GUnrealEd_set t \<Longrightarrow> ''FHoudiniEngineEditor'' \<notin> UndoClients (ShutdownModule m t)"
  "\<not> GUnrealEd_set t \<Longrightarrow> UndoClients (ShutdownModule m t) = UndoClients t"
  by (simp_all add: ShutdownModule_def Let_def registration_keeps UnregisterForUndo_def)

lemma ShutdownModule_placement:
  "PlacementMode_available t \<Longrightarrow> ''HoudiniEngine'' \<notin> PlacementCategories (ShutdownModule m t)"
  by (simp add: ShutdownModule_def Let_def registration_keeps
      UnregisterPlacementModeExtensions_def)

lemma ShutdownModule_leaves:
  "ActorFactories (ShutdownModule m t) = ActorFactories t"
  "ConsoleCommands (ShutdownModule m t) = ConsoleCommands t"
  "MenuExtenders (ShutdownModule m t) = MenuExtenders t"
  by (simp_all add: ShutdownModule_def Let_def registration_keeps)

text \<open>
  C3, as amended. Started in an editor where none of its extensions is registered, and
  shut down while the object system is up and the placement mode module is available,
  the module leaves no asset type action, detail customizer, thumbnail renderer,
  component visualizer, undo client or placement category of its own, although startup
  had registered some. Shutdown does not touch the actor factories, the console commands
  and the menu extenders.
\<close>

theorem ShutdownModule_unregisters:
  assumes "unregistered_at_shutdown s"
    and "UObjects_initialized s" and "PlacementMode_available s"
  shows "\<not> unregistered_at_shutdown (StartupModule m s)
       \<and> unregistered_at_shutdown (ShutdownModule m (StartupModule m s))
       \<and> ActorFactories (ShutdownModule m t) = ActorFactories t
       \<and> ConsoleCommands (ShutdownModule m t) = ConsoleCommands t
       \<and> MenuExtenders (ShutdownModule m t) = MenuExtenders t"
proof -
  let ?t = "StartupModule m s"
  have started: "\<not> unregistered_at_shutdown ?t"
    using StartupModule_actions(2)[of m s] by (simp add: unregistered_at_shutdown_def)
  have actions: "''FHoudiniAssetTypeActions'' \<notin> RegisteredAssetTypeActions (ShutdownModule m ?t)"
    using ShutdownModule_actions[OF StartupModule_modules(1) StartupModule_actions(1)] .
  have details: "CustomClassLayouts (ShutdownModule m ?t) ''HoudiniAssetComponent'' = None \<and>
      CustomClassLayouts (ShutdownModule m ?t) ''HoudiniRuntimeSettings'' = None"
    using ShutdownModule_details[OF StartupModule_modules(2)] .
  have thumbs: "CustomRenderers (ShutdownModule m ?t) ''HoudiniAsset'' = None"
    using ShutdownModule_thumbnails[of ?t m] assms(2) by (simp add: StartupModule_environment)
  have placement: "''HoudiniEngine'' \<notin> PlacementCategories (ShutdownModule m ?t)"
    using ShutdownModule_placement[of ?t m] assms(3) by (simp add: StartupModule_environment)
  have visualizers: "ComponentVisualizers (ShutdownModule m ?t) ''HoudiniSplineComponent'' = None \<and>
      ComponentVisualizers (ShutdownModule m ?t) ''HoudiniHandleComponent'' = None"
  proof (cases "GUnrealEd_set s")
    case True
    then show ?thesis
      using ShutdownModule_visualizers(1)[of ?t m] StartupModule_visualizers(1,2)[of s m]
      by (simp add: StartupModule_environment)
  next
    case False
    then show ?thesis
      using ShutdownModule_visualizers(2)[of ?t m] StartupModule_visualizers(3)[of s m] assms(1)
      by (simp add: StartupModule_environment unregistered_at_shutdown_def)
  qed
  have undo: "''FHoudiniEngineEditor'' \<notin> UndoClients (ShutdownModule m ?t)"
  proof (cases "GUnrealEd_set s")
    case True
    then show ?thesis using ShutdownModule_undo(1)[of ?t m]
      by (simp add: StartupModule_environment)
  next
    case False
    then show ?thesis
      using ShutdownModule_undo(2)[of ?t m] StartupModule_visualizers(4)[of s m] assms(1)
      by (simp add: StartupModule_environment unregistered_at_shutdown_def)
  qed
  have "unregistered_at_shutdown (ShutdownModule m ?t)"
    unfolding unregistered_at_shutdown_def
    using actions details thumbs visualizers undo placement by simp
  then show ?thesis using started by (simp add: ShutdownModule_leaves)
qed

lemma RegisterActorFactories_changes:
  "ActorFactories (RegisterActorFactories s)
     = (if GEditor_set s then ActorFactories s @ [''UHoudiniAssetActorFactory'']
        else ActorFactories s)"
  by (simp add: RegisterActorFactories_def)

lemma ExtendMenu_extender:
  "\<not> RunningCommandlet s \<Longrightarrow> ''AddHoudiniMenuExtension'' \<in> MenuExtenders (ExtendMenu s)"
  by (simp add: ExtendMenu_def BindMenuCommands_def LoadModuleChecked_def Let_def)

lemma RegisterConsoleCommands_first:
  "\<not> ConsoleStatics s \<Longrightarrow>
   list_all (\<lambda>c. ConsoleCommands (RegisterConsoleCommands s) (fst c) = Some (snd (snd c)))
     console_command_table"
  by (simp add: RegisterConsoleCommands_def console_command_table_def)

lemma fresh_editor_clean: "no_houdini_extension_registered fresh_editor"
  by (simp add: no_houdini_extension_registered_def unregistered_at_shutdown_def
      fresh_editor_def console_command_table_def GetStyleSetName_def)

lemma fresh_editor_started:
  "''UHoudiniAssetActorFactory'' \<in> set (ActorFactories (StartupModule m fresh_editor))"
  "ConsoleCommands (StartupModule m fresh_editor) ''Houdini.Open'' = Some Fn_OpenInHoudini"
  "''AddHoudiniMenuExtension'' \<in> MenuExtenders (StartupModule m fresh_editor)"
proof -
  have env: "GEditor_set fresh_editor" "\<not> RunningCommandlet fresh_editor"
    "\<not> ConsoleStatics fresh_editor"
    by (simp_all add: fresh_editor_def)
  show "''UHoudiniAssetActorFactory'' \<in> set (ActorFactories (StartupModule m fresh_editor))"
    using env(1)
    by (simp add: StartupModule_def Let_def registration_keeps RegisterActorFactories_changes)
  let ?s8 = "ExtendMenu (RegisterThumbnails (RegisterStyleSet (RegisterActorFactories
          (RegisterDetails (RegisterComponentVisualizers (RegisterAssetBrokers
          (RegisterAssetTypeActions fresh_editor)))))))"
  have "\<not> ConsoleStatics ?s8" using env(3) by (simp add: registration_keeps)
  from RegisterConsoleCommands_first[OF this]
  have "ConsoleCommands (RegisterConsoleCommands ?s8) ''Houdini.Open'' = Some Fn_OpenInHoudini"
    by (simp add: console_command_table_def)
  then show "ConsoleCommands (StartupModule m fresh_editor) ''Houdini.Open''
               = Some Fn_OpenInHoudini"
    by (simp add: StartupModule_def Let_def registration_keeps)
  have "\<not> RunningCommandlet (RegisterThumbnails (RegisterStyleSet (RegisterActorFactories
          (RegisterDetails (RegisterComponentVisualizers (RegisterAssetBrokers
          (RegisterAssetTypeActions fresh_editor)))))))"
    using env(2) by (simp add: registration_keeps)
  from ExtendMenu_extender[OF this]
  show "''AddHoudiniMenuExtension'' \<in> MenuExtenders (StartupModule m fresh_editor)"
    by (simp add: StartupModule_def Let_def registration_keeps)
qed

theorem ShutdownModule_unregisters_witness:
  "unregistered_at_shutdown fresh_editor
   \<and> UObjects_initialized fresh_editor \<and> PlacementMode_available fresh_editor
   \<and> \<not> unregistered_at_shutdown (StartupModule False fresh_editor)
   \<and> unregistered_at_shutdown (ShutdownModule False (StartupModule False fresh_editor))
   \<and> ActorFactories (ShutdownModule False (StartupModule False fresh_editor))
       = ActorFactories (StartupModule False fresh_editor)
   \<and> ConsoleCommands (ShutdownModule False (StartupModule False fresh_editor))
       = ConsoleCommands (StartupModule False fresh_editor)
   \<and> MenuExtenders (ShutdownModule False (StartupModule False fresh_editor))
       = MenuExtenders (StartupModule False fresh_editor)"
proof -
  have a: "unregistered_at_shutdown fresh_editor"
    using fresh_editor_clean by (simp add: no_houdini_extension_registered_def)
  have b: "UObjects_initialized fresh_editor" and c: "PlacementMode_available fresh_editor"
    by (simp_all add: fresh_editor_def)
  show ?thesis
    using ShutdownModule_unregisters[OF a b c, of False "StartupModule False fresh_editor"] a b c
    by simp
qed

text \<open>
  C3, as stated, fails. In an editor where no Houdini extension is registered, a startup
  followed by a shutdown leaves the actor factory, the console commands and the menu
  extender registered.
\<close>

theorem extensions_remain_after_shutdown:
  "no_houdini_extension_registered fresh_editor
   \<and> \<not> no_houdini_extension_registered
         (ShutdownModule False (StartupModule False fresh_editor))
   \<and> ''UHoudiniAssetActorFactory''
       \<in> set (ActorFactories (ShutdownModule False (StartupModule False fresh_editor)))
   \<and> ConsoleCommands (ShutdownModule False (StartupModule False fresh_editor)) ''Houdini.Open''
       = Some Fn_OpenInHoudini
   \<and> ''AddHoudiniMenuExtension''
       \<in> MenuExtenders (ShutdownModule False (StartupModule False fresh_editor))"
  using fresh_editor_clean fresh_editor_started[of False]
  by (simp add: ShutdownModule_leaves no_houdini_extension_registered_def)

subsection \<open>Commands\<close>

text \<open>
  C7, as amended. The six menu commands and the three selection commands are bound to
  their functions, each function to one command; the ten console commands are registered
  under their names. The specification's pairing covers every console command but
  \<open>Houdini.CookAll\<close> and \<open>Houdini.RebuildAll\<close>, and every bound command but the
  one for \<open>ReportBug\<close>; a paired console command runs the function that its bound
  command runs. \<open>Houdini.CookAll\<close> and \<open>Houdini.RebuildAll\<close> run
  \<open>RecookAllAssets\<close> and \<open>RebuildAllAssets\<close>, which no bound command runs, and no
  console command runs \<open>ReportBug\<close>. Every entry of the Houdini menu section is a
  bound command. \<open>BindMenuCommands\<close> installs the bound commands, and the first run
  of \<open>RegisterConsoleCommands\<close> the console commands.
\<close>

theorem commands_share_handlers:
  "map (\<lambda>c. (fst c, ExecuteAction (snd c))) bound_commands
     = [(Cmd_OpenInHoudini, Fn_OpenInHoudini), (Cmd_SaveHIPFile, Fn_SaveHIPFile),
        (Cmd_ReportBug, Fn_ReportBug), (Cmd_CleanUpTempFolder, Fn_CleanUpTempFolder),
        (Cmd_BakeAllAssets, Fn_BakeAllAssets), (Cmd_PauseAssetCooking, Fn_PauseAssetCooking),
        (Cmd_CookSelec, Fn_RecookSelection), (Cmd_RebuildSelec, Fn_RebuildSelection),
        (Cmd_BakeSelec, Fn_BakeSelection)]
   \<and> distinct (map (\<lambda>c. ExecuteAction (snd c)) bound_commands)
   \<and> map (\<lambda>c. (fst c, snd (snd c))) console_command_table
     = [(''Houdini.Open'', Fn_OpenInHoudini), (''Houdini.Save'', Fn_SaveHIPFile),
        (''Houdini.BakeAll'', Fn_BakeAllAssets), (''Houdini.Clean'', Fn_CleanUpTempFolder),
        (''Houdini.Pause'', Fn_PauseAssetCooking), (''Houdini.CookAll'', Fn_RecookAllAssets),
        (''Houdini.RebuildAll'', Fn_RebuildAllAssets), (''Houdini.Cook'', Fn_RecookSelection),
        (''Houdini.Rebuild'', Fn_RebuildSelection), (''Houdini.Bake'', Fn_BakeSelection)]
   \<and> map fst corresponding_commands
     = filter (\<lambda>name. name \<noteq> ''Houdini.CookAll'' \<and> name \<noteq> ''Houdini.RebuildAll'')
         (map fst console_command_table)
   \<and> set (map snd corresponding_commands)
     = set (filter (\<lambda>cmd. cmd \<noteq> Cmd_ReportBug) (map fst bound_commands))
   \<and> (\<forall>p\<in>set corresponding_commands.
         console_handler (fst p) \<noteq> None \<and> console_handler (fst p) = bound_handler (snd p))
   \<and> console_handler ''Houdini.CookAll'' = Some Fn_RecookAllAssets
   \<and> console_handler ''Houdini.RebuildAll'' = Some Fn_RebuildAllAssets
   \<and> Fn_RecookAllAssets \<notin> set (map (\<lambda>c. ExecuteAction (snd c)) bound_commands)
   \<and> Fn_RebuildAllAssets \<notin> set (map (\<lambda>c. ExecuteAction (snd c)) bound_commands)
   \<and> Fn_ReportBug \<notin> set (map (\<lambda>c. snd (snd c)) console_command_table)
   \<and> (\<forall>cmd\<in>set AddHoudiniMenuExtension. bound_handler cmd \<noteq> None)
   \<and> HEngineCommands (BindMenuCommands s) = Some bound_commands
   \<and> (\<not> ConsoleStatics s \<longrightarrow>
        (\<forall>c\<in>set console_command_table.
           ConsoleCommands (RegisterConsoleCommands s) (fst c) = Some (snd (snd c))))"
proof -
  have bound: "map (\<lambda>c. (fst c, ExecuteAction (snd c))) bound_commands
     = [(Cmd_OpenInHoudini, Fn_OpenInHoudini), (Cmd_SaveHIPFile, Fn_SaveHIPFile),
        (Cmd_ReportBug, Fn_ReportBug), (Cmd_CleanUpTempFolder, Fn_CleanUpTempFolder),
        (Cmd_BakeAllAssets, Fn_BakeAllAssets), (Cmd_PauseAssetCooking, Fn_PauseAssetCooking),
        (Cmd_CookSelec, Fn_RecookSelection), (Cmd_RebuildSelec, Fn_RebuildSelection),
        (Cmd_BakeSelec, Fn_BakeSelection)]"
    by (simp add: bound_commands_def MapAction_def)
  have one: "distinct (map (\<lambda>c. ExecuteAction (snd c)) bound_commands)"
    by (simp add: bound_commands_def MapAction_def)
  have console: "map (\<lambda>c. (fst c, snd (snd c))) console_command_table
     = [(''Houdini.Open'', Fn_OpenInHoudini), (''Houdini.Save'', Fn_SaveHIPFile),
        (''Houdini.BakeAll'', Fn_BakeAllAssets), (''Houdini.Clean'', Fn_CleanUpTempFolder),
        (''Houdini.Pause'', Fn_PauseAssetCooking), (''Houdini.CookAll'', Fn_RecookAllAssets),
        (''Houdini.RebuildAll'', Fn_RebuildAllAssets), (''Houdini.Cook'', Fn_RecookSelection),
        (''Houdini.Rebuild'', Fn_RebuildSelection), (''Houdini.Bake'', Fn_BakeSelection)]"
    by (simp add: console_command_table_def)
  have names: "map fst corresponding_commands
     = filter (\<lambda>name. name \<noteq> ''Houdini.CookAll'' \<and> name \<noteq> ''Houdini.RebuildAll'')
         (map fst console_command_table)"
    by (simp add: corresponding_commands_def console_command_table_def)
  have cmds: "set (map snd corresponding_commands)
     = set (filter (\<lambda>cmd. cmd \<noteq> Cmd_ReportBug) (map fst bound_commands))"
    by (auto simp: corresponding_commands_def bound_commands_def MapAction_def)
  have same: "\<forall>p\<in>set corresponding_commands.
         console_handler (fst p) \<noteq> None \<and> console_handler (fst p) = bound_handler (snd p)"
    by (simp add: corresponding_commands_def console_handler_def bound_handler_def
        console_command_table_def bound_commands_def MapAction_def)
  have all1: "console_handler ''Houdini.CookAll'' = Some Fn_RecookAllAssets"
    and all2: "console_handler ''Houdini.RebuildAll'' = Some Fn_RebuildAllAssets"
    by (simp_all add: console_handler_def console_command_table_def)
  have only1: "Fn_RecookAllAssets \<notin> set (map (\<lambda>c. ExecuteAction (snd c)) bound_commands)"
    and only2: "Fn_RebuildAllAssets \<notin> set (map (\<lambda>c. ExecuteAction (snd c)) bound_commands)"
    by (simp_all add: bound_commands_def MapAction_def)
  have no_bug: "Fn_ReportBug \<notin> set (map (\<lambda>c. snd (snd c)) console_command_table)"
    by (simp add: console_command_table_def)
  have menu: "\<forall>cmd\<in>set AddHoudiniMenuExtension. bound_handler cmd \<noteq> None"
    by (simp add: AddHoudiniMenuExtension_def bound_handler_def bound_commands_def MapAction_def)
  have bind: "HEngineCommands (BindMenuCommands s) = Some bound_commands"
    by (simp add: BindMenuCommands_def LoadModuleChecked_def Let_def)
  have reg: "\<not> ConsoleStatics s \<longrightarrow>
        (\<forall>c\<in>set console_command_table.
           ConsoleCommands (RegisterConsoleCommands s) (fst c) = Some (snd (snd c)))"
    using RegisterConsoleCommands_first[of s] by (simp add: list_all_iff)
  show ?thesis
    by (intro conjI bound one console names cmds same all1 all2 only1 only2 no_bug menu bind reg)
qed

theorem commands_share_handlers_witness:
  "console_handler ''Houdini.Cook'' = Some Fn_RecookSelection
   \<and> bound_handler Cmd_CookSelec = Some Fn_RecookSelection
   \<and> console_handler ''Houdini.Save'' = bound_handler Cmd_SaveHIPFile
   \<and> bound_handler Cmd_ReportBug = Some Fn_ReportBug
   \<and> console_handler ''Houdini.CookAll'' = Some Fn_RecookAllAssets
   \<and> \<not> ConsoleStatics fresh_editor
   \<and> ConsoleCommands (RegisterConsoleCommands fresh_editor) ''Houdini.BakeAll''
       = Some Fn_BakeAllAssets
   \<and> HEngineCommands (BindMenuCommands fresh_editor) = Some bound_commands"
proof -
  note inst = commands_share_handlers[of fresh_editor]
  have fresh: "\<not> ConsoleStatics fresh_editor" by (simp add: fresh_editor_def)
  have a: "console_handler ''Houdini.Cook'' = bound_handler Cmd_CookSelec"
    and b: "console_handler ''Houdini.Save'' = bound_handler Cmd_SaveHIPFile"
    using inst by (simp_all add: corresponding_commands_def)
  have c: "bound_handler Cmd_CookSelec = Some Fn_RecookSelection"
    and d: "bound_handler Cmd_ReportBug = Some Fn_ReportBug"
    by (simp_all add: bound_handler_def bound_commands_def MapAction_def)
  have e: "ConsoleCommands (RegisterConsoleCommands fresh_editor) ''Houdini.BakeAll''
       = Some Fn_BakeAllAssets"
    using inst fresh by (simp add: console_command_table_def)
  have f: "HEngineCommands (BindMenuCommands fresh_editor) = Some bound_commands"
    using inst by simp
  have g: "console_handler ''Houdini.CookAll'' = Some Fn_RecookAllAssets"
    using inst by simp
  show ?thesis using a b c d e f g fresh by simp
qed

text \<open>
  C7, as stated, fails for two of the ten console commands: \<open>Houdini.CookAll\<close> and
  \<open>Houdini.RebuildAll\<close> run functions that no command of the user interface runs, so
  there is no corresponding command whose function they could share.
\<close>

theorem console_only_commands:
  "console_handler ''Houdini.CookAll'' = Some Fn_RecookAllAssets
   \<and> console_handler ''Houdini.RebuildAll'' = Some Fn_RebuildAllAssets
   \<and> Fn_RecookAllAssets \<notin> set (map (\<lambda>c. ExecuteAction (snd c)) bound_commands)
   \<and> Fn_RebuildAllAssets \<notin> set (map (\<lambda>c. ExecuteAction (snd c)) bound_commands)
   \<and> map fst bound_commands
       = [Cmd_OpenInHoudini, Cmd_SaveHIPFile, Cmd_ReportBug, Cmd_CleanUpTempFolder,
          Cmd_BakeAllAssets, Cmd_PauseAssetCooking, Cmd_CookSelec, Cmd_RebuildSelec,
          Cmd_BakeSelec]"
  by (simp add: console_handler_def console_command_table_def bound_commands_def MapAction_def)

end
